theory Spec2Isabelle
  imports
    Complex_Main
    "HOL-Library.Word"
    "HOL-Library.List_Lexorder"
    "HOL-Library.Product_Lexorder"
begin

unbundle bit_operations_syntax

section \<open>Python values\<close>

text \<open>
  A Python \<open>str\<close> is a sequence of Unicode code points, modelled as a list of naturals;
  \<open>bytes\<close> is a list of 8-bit words. \<open>py\<close> turns an ASCII literal into a \<open>str\<close>.
  Python integers are unbounded (\<open>int\<close>, \<open>nat\<close> where the source cannot go negative).
\<close>

type_synonym pystr = "nat list"
type_synonym byte = "8 word"
type_synonym bytes = "byte list"

definition py :: "string \<Rightarrow> pystr" where
  "py s = map of_char s"

text \<open>The exceptions the modelled code raises or catches.\<close>

datatype py_exception =
    OSError pystr
  | FileNotFoundError
  | ZeroDivisionError
  | ValueError
  | OverflowError
  | MemoryError
  | UnicodeEncodeError
  | SqliteError
  | ParseError
  | TransferError pystr
  | SystemExit nat

text \<open>
  An aware \<open>datetime\<close> in UTC, by its calendar fields. \<open>datetime.now(timezone.utc)\<close> and
  \<open>datetime.fromtimestamp(t, tz=timezone.utc)\<close> carry microseconds.
\<close>

record datetime =
  year :: nat
  month :: nat
  day :: nat
  hour :: nat
  minute :: nat
  second :: nat
  microsecond :: nat

section \<open>External libraries\<close>

text \<open>
  The \<open>xxhash\<close> package, \<open>unicodedata\<close> and \<open>fnmatch\<close> are not code of this
  repository; they are parameters of the model.

  The hasher object of \<open>xxhash\<close>: \<open>xxh_new\<close> is the state of \<open>xxhash.xxh64()\<close>,
  \<open>xxh_update\<close> is \<open>hasher.update(chunk)\<close> and \<open>xxh_hexdigest\<close> is
  \<open>hasher.hexdigest()\<close>. \<open>xxhash.xxh64(data)\<close> is the library's constructor with
  initial input, that is a new hasher updated once with \<open>data\<close>.
\<close>

record 'h xxh64 =
  xxh_new :: 'h
  xxh_update :: "'h \<Rightarrow> bytes \<Rightarrow> 'h"
  xxh_hexdigest :: "'h \<Rightarrow> pystr"


text \<open>
  \<open>nfc\<close> is \<open>unicodedata.normalize("NFC", s)\<close>, \<open>fnmatch\<close> is
  \<open>fnmatch.fnmatch(name, pattern)\<close>, \<open>xxhash\<close> is the hasher. \<open>memory\<close> belongs to the
  interpreter: the number of bytes it can allocate for one byte string beyond the 1 MiB
  of a default chunk (a machine that cannot allocate 1 MiB does not get this far).
\<close>

record 'h library =
  nfc :: "pystr \<Rightarrow> pystr"
  fnmatch :: "pystr \<Rightarrow> pystr \<Rightarrow> bool"
  xxhash :: "'h xxh64"
  memory :: nat

section \<open>utils.py\<close>

definition normalize_path :: "'h library \<Rightarrow> pystr \<Rightarrow> pystr" where
  "normalize_path L path = nfc L path"

section \<open>The file system as the code sees it\<close>

text \<open>
  One regular file met by \<open>root.rglob("*")\<close> (after the \<open>is_file()\<close> filter):
  its path relative to the walked root, what \<open>stat()\<close> returns (\<open>None\<close>: \<open>stat\<close> raises
  \<open>OSError\<close>), what reading it returns (\<open>None\<close>: \<open>open\<close> or \<open>read\<close> raises \<open>OSError\<close>),
  and the text of the \<open>OSError\<close> it raises.
\<close>

record stat_result =
  st_size :: nat
  st_mtime :: datetime

record fs_file =
  rel_path :: pystr
  stat :: "stat_result option"
  content :: "bytes option"
  strerror :: pystr

section \<open>hash.py\<close>

definition DEFAULT_CHUNK_SIZE :: int where
  "DEFAULT_CHUNK_SIZE = 1024 * 1024"

text \<open>
  The largest size of an object (\<open>sys.maxsize\<close> on a 64-bit interpreter), and the
  largest byte string the interpreter can allocate on this machine.
\<close>

definition SSIZE_MAX :: int where
  "SSIZE_MAX = 2 ^ 63 - 1"

definition max_alloc :: "'h library \<Rightarrow> int" where
  "max_alloc L = DEFAULT_CHUNK_SIZE + int (memory L)"

text \<open>
  A binary stream: an in-memory \<open>io.BytesIO\<close>, or the buffered reader that
  \<open>open(path, "rb")\<close> returns, which allocates the \<open>n\<close> bytes asked for before it reads
  (its argument is the largest allocation the machine grants).

  \<open>stream.read(n)\<close> on a stream whose unread bytes are \<open>s\<close>: the exception raised, or the
  chunk returned and the bytes left. A size that is not an index-sized integer raises
  \<open>OverflowError\<close>. \<open>BytesIO\<close> reads to the end for a negative size. The buffered reader
  reads to the end for \<open>-1\<close>, raises \<open>ValueError\<close> for another negative size,
  \<open>OverflowError\<close> (byte string is too large) when the size leaves no room for the
  object header of 33 bytes, and \<open>MemoryError\<close> when the allocation is not granted.
\<close>

datatype binary_io = BytesIO | BufferedReader int

definition read :: "binary_io \<Rightarrow> int \<Rightarrow> bytes \<Rightarrow> py_exception + bytes \<times> bytes" where
  "read io n s =
     (if n < - SSIZE_MAX - 1 \<or> SSIZE_MAX < n then Inl OverflowError
      else
        (case io of
           BytesIO \<Rightarrow> Inr (if n < 0 then (s, []) else (take (nat n) s, drop (nat n) s))
         | BufferedReader limit \<Rightarrow>
             if n = - 1 then Inr (s, [])
             else if n < 0 then Inl ValueError
             else if SSIZE_MAX - 33 < n then Inl OverflowError
             else if limit < n then Inl MemoryError
             else Inr (take (nat n) s, drop (nat n) s)))"

text \<open>
  \<open>while chunk := stream.read(chunk_size): hasher.update(chunk)\<close>; an exception of
  \<open>read\<close> ends the loop and the function.
\<close>

function hash_loop ::
  "'h xxh64 \<Rightarrow> binary_io \<Rightarrow> int \<Rightarrow> 'h \<Rightarrow> bytes \<Rightarrow> py_exception + 'h" where
  "hash_loop X io chunk_size hasher s =
     (case read io chunk_size s of
        Inl e \<Rightarrow> Inl e
      | Inr r \<Rightarrow>
          if fst r = [] then Inr hasher
          else hash_loop X io chunk_size (xxh_update X hasher (fst r)) (snd r))"
  by pat_completeness auto
termination
  by (relation "measure (\<lambda>(X, io, n, h, s). length s)")
     (auto simp: read_def split: if_splits binary_io.splits)

definition hash_stream :: "'h xxh64 \<Rightarrow> binary_io \<Rightarrow> bytes \<Rightarrow> int \<Rightarrow> py_exception + pystr" where
  "hash_stream X io stream chunk_size =
     (case hash_loop X io chunk_size (xxh_new X) stream of
        Inl e \<Rightarrow> Inl e
      | Inr hasher \<Rightarrow> Inr (xxh_hexdigest X hasher))"


text \<open>
  \<open>hash_file\<close>: \<open>filepath.stat()\<close> first, then the file is opened and read in chunks.
  The progress callback only observes and is left out.
\<close>

definition hash_file :: "'h library \<Rightarrow> fs_file \<Rightarrow> int \<Rightarrow> py_exception + pystr" where
  "hash_file L f chunk_size =
     (case stat f of
        None \<Rightarrow> Inl (OSError (strerror f))
      | Some st \<Rightarrow>
          (case content f of
             None \<Rightarrow> Inl (OSError (strerror f))
           | Some data \<Rightarrow>
               hash_stream (xxhash L) (BufferedReader (max_alloc L)) data chunk_size))"

section \<open>catalog\_db.py\<close>

text \<open>
  The two tables of the schema. A \<open>TEXT\<close> column that holds \<open>isoformat()\<close> of a
  datetime is kept as the datetime. The \<open>AUTOINCREMENT\<close> id of a file row and the
  full-text index, which triggers derive from \<open>files\<close>, are read by none of the
  functions below and are left out. Rows are kept in insertion order.
\<close>

record tape_row =
  t_name :: pystr
  t_volume_uuid :: "pystr option"
  t_barcode :: "pystr option"
  t_created_at :: "datetime option"
  t_total_bytes :: int
  t_file_count :: int

record file_row =
  f_tape_name :: pystr
  f_path :: pystr
  f_size :: int
  f_mtime :: "datetime option"
  f_xxhash :: "pystr option"
  f_archived_at :: "datetime option"

record catalog =
  tapes :: "tape_row list"
  files :: "file_row list"

record search_result =
  r_tape_name :: pystr
  r_path :: pystr
  r_size :: int
  r_mtime :: "datetime option"
  r_xxhash :: "pystr option"

definition empty_catalog :: catalog where
  "empty_catalog = \<lparr> tapes = [], files = [] \<rparr>"

text \<open>SQL \<open>COALESCE(a, b)\<close>.\<close>

definition coalesce :: "'a option \<Rightarrow> 'a option \<Rightarrow> 'a option" where
  "coalesce a b = (case a of None \<Rightarrow> b | Some x \<Rightarrow> Some x)"

text \<open>A fresh row of \<open>tapes\<close>: \<open>total_bytes\<close> and \<open>file_count\<close> default to 0.\<close>

definition new_tape :: "pystr \<Rightarrow> pystr option \<Rightarrow> pystr option \<Rightarrow> datetime option \<Rightarrow> tape_row" where
  "new_tape name volume_uuid barcode created_at =
     \<lparr> t_name = name, t_volume_uuid = volume_uuid, t_barcode = barcode,
       t_created_at = created_at, t_total_bytes = 0, t_file_count = 0 \<rparr>"

text \<open>
  A text parameter is bound as UTF-8: a string with a lone surrogate raises
  \<open>UnicodeEncodeError\<close>, which is not an \<open>sqlite3.Error\<close>.
\<close>

definition utf8_encodable :: "pystr \<Rightarrow> bool" where
  "utf8_encodable s \<longleftrightarrow> list_all (\<lambda>c. \<not> (55296 \<le> c \<and> c \<le> 57343)) s"

definition encodable_opt :: "pystr option \<Rightarrow> bool" where
  "encodable_opt t \<longleftrightarrow> (case t of None \<Rightarrow> True | Some s \<Rightarrow> utf8_encodable s)"

text \<open>
  \<open>add_tape\<close>: \<open>INSERT INTO tapes ... ON CONFLICT(name) DO UPDATE SET\<close> each of the three
  descriptive columns to \<open>COALESCE(excluded.c, tapes.c)\<close>. The result is the exception
  raised, if any, and the database afterwards.
\<close>

definition add_tape ::
  "catalog \<Rightarrow> pystr \<Rightarrow> pystr option \<Rightarrow> pystr option \<Rightarrow> datetime option
     \<Rightarrow> py_exception option \<times> catalog" where
  "add_tape db name volume_uuid barcode created_at =
     (if \<not> (utf8_encodable name \<and> encodable_opt volume_uuid \<and> encodable_opt barcode)
      then (Some UnicodeEncodeError, db)
      else if name \<in> set (map t_name (tapes db))
      then (None,
            db \<lparr> tapes := map (\<lambda>t. if t_name t = name
                 then t \<lparr> t_volume_uuid := coalesce volume_uuid (t_volume_uuid t),
                        t_barcode := coalesce barcode (t_barcode t),
                        t_created_at := coalesce created_at (t_created_at t) \<rparr>
                 else t) (tapes db) \<rparr>)
      else (None, db \<lparr> tapes := tapes db @ [new_tape name volume_uuid barcode created_at] \<rparr>))"

text \<open>
  \<open>INSERT INTO files ... ON CONFLICT(tape_name, path) DO UPDATE SET size, mtime, xxhash,
  archived_at\<close>: the row with the same tape and path is updated in place, otherwise the
  new row is appended.
\<close>

definition same_key :: "file_row \<Rightarrow> file_row \<Rightarrow> bool" where
  "same_key r x \<longleftrightarrow> f_tape_name x = f_tape_name r \<and> f_path x = f_path r"

definition upsert_file :: "file_row \<Rightarrow> file_row list \<Rightarrow> file_row list" where
  "upsert_file r rows =
     (if list_ex (same_key r) rows
      then map (\<lambda>x. if same_key r x
                 then x \<lparr> f_size := f_size r, f_mtime := f_mtime r,
                        f_xxhash := f_xxhash r, f_archived_at := f_archived_at r \<rparr>
                 else x) rows
      else rows @ [r])"

text \<open>An SQLite \<open>INTEGER\<close> is a signed 64-bit value.\<close>

definition INT64 :: "int \<Rightarrow> bool" where
  "INT64 n \<longleftrightarrow> - (2 ^ 63) \<le> n \<and> n < 2 ^ 63"

text \<open>
  SQL \<open>SUM\<close> over integers fails with an integer-overflow error as soon as a partial
  sum leaves the 64-bit range.
\<close>

fun sql_sum :: "int \<Rightarrow> int list \<Rightarrow> int option" where
  "sql_sum acc [] = Some acc"
| "sql_sum acc (x # xs) = (if INT64 (acc + x) then sql_sum (acc + x) xs else None)"

type_synonym file_tuple = "pystr \<times> int \<times> datetime option \<times> pystr option"

text \<open>
  The loop of \<open>add_files\<close> over \<open>(path, size, mtime, xxhash)\<close>. The parameters are
  bound in order: a path or a digest that is not encodable raises
  \<open>UnicodeEncodeError\<close>, a Python integer outside the 64-bit range raises
  \<open>OverflowError\<close>; the loop catches neither. \<open>rejects\<close> tells the statements the engine
  refuses with an \<open>sqlite3.Error\<close>: the loop skips those rows (\<open>except sqlite3.Error:
  continue\<close>). The state is the rows of \<open>files\<close> and the counter \<open>added\<close>.
\<close>

fun insert_files ::
  "'h library \<Rightarrow> (file_row \<Rightarrow> bool) \<Rightarrow> pystr \<Rightarrow> datetime \<Rightarrow> file_tuple list
     \<Rightarrow> file_row list \<times> nat \<Rightarrow> py_exception + file_row list \<times> nat" where
  "insert_files L rejects tape_name archived [] acc = Inr acc"
| "insert_files L rejects tape_name archived ((path, sz, mtime, digest) # rest) (rows, added) =
     (if \<not> utf8_encodable (normalize_path L path) then Inl UnicodeEncodeError
      else if \<not> INT64 sz then Inl OverflowError
      else if \<not> encodable_opt digest then Inl UnicodeEncodeError
      else if rejects \<lparr> f_tape_name = tape_name, f_path = normalize_path L path,
                f_size = sz, f_mtime = mtime, f_xxhash = digest,
                f_archived_at = Some archived \<rparr>
      then insert_files L rejects tape_name archived rest (rows, added)
      else insert_files L rejects tape_name archived rest
             (upsert_file \<lparr> f_tape_name = tape_name, f_path = normalize_path L path,
                f_size = sz, f_mtime = mtime, f_xxhash = digest,
                f_archived_at = Some archived \<rparr> rows, added + 1))"

definition volume_rows :: "catalog \<Rightarrow> pystr \<Rightarrow> file_row list" where
  "volume_rows db name = filter (\<lambda>f. f_tape_name f = name) (files db)"

text \<open>
  \<open>UPDATE tapes SET file_count = (SELECT COUNT(*) ...), total_bytes = (SELECT
  COALESCE(SUM(size), 0) ...) WHERE name = ?\<close>
\<close>

definition update_tape_stats :: "pystr \<Rightarrow> catalog \<Rightarrow> py_exception + catalog" where
  "update_tape_stats tape_name db =
     (case sql_sum 0 (map f_size (volume_rows db tape_name)) of
        None \<Rightarrow> Inl SqliteError
      | Some total_bytes \<Rightarrow>
          Inr (db \<lparr> tapes := map (\<lambda>t. if t_name t = tape_name
                   then t \<lparr> t_file_count := int (length (volume_rows db tape_name)),
                          t_total_bytes := total_bytes \<rparr>
                   else t) (tapes db) \<rparr>))"

text \<open>
  \<open>add_files\<close> runs in one transaction: an exception rolls everything back and leaves
  the database as it was. \<open>now\<close> is the clock reading used when \<open>archived_at\<close> is not
  given. The result is the exception raised or the number of rows added, and the
  database afterwards.
\<close>

definition add_files ::
  "'h library \<Rightarrow> (file_row \<Rightarrow> bool) \<Rightarrow> datetime \<Rightarrow> catalog \<Rightarrow> pystr \<Rightarrow> file_tuple list
     \<Rightarrow> datetime option \<Rightarrow> (py_exception + nat) \<times> catalog" where
  "add_files L rejects now db tape_name fs archived_at =
     (if fs = [] then (Inr 0, db)
      else if \<not> utf8_encodable tape_name then (Inl UnicodeEncodeError, db)
      else
        let archived = (case archived_at of None \<Rightarrow> now | Some a \<Rightarrow> a);
            db1 = (if tape_name \<in> set (map t_name (tapes db)) then db
                   else db \<lparr> tapes := tapes db @ [new_tape tape_name None None None] \<rparr>)
        in case insert_files L rejects tape_name archived fs (files db1, 0) of
             Inl e \<Rightarrow> (Inl e, db)
           | Inr (rows, added) \<Rightarrow>
               (case update_tape_stats tape_name (db1 \<lparr> files := rows \<rparr>) of
                  Inl e \<Rightarrow> (Inl e, db)
                | Inr db2 \<Rightarrow> (Inr added, db2)))"

text \<open>
  \<open>find_by_hash\<close>: \<open>SELECT ... FROM files WHERE xxhash = ? ORDER BY tape_name, path\<close>.
  A \<open>NULL\<close> digest matches nothing. Text compares code point by code point.
\<close>

definition to_search_result :: "file_row \<Rightarrow> search_result" where
  "to_search_result f =
     \<lparr> r_tape_name = f_tape_name f, r_path = f_path f, r_size = f_size f,
       r_mtime = f_mtime f, r_xxhash = f_xxhash f \<rparr>"

definition find_by_hash :: "catalog \<Rightarrow> pystr \<Rightarrow> search_result list" where
  "find_by_hash db digest =
     map to_search_result
       (sort_key (\<lambda>f. (f_tape_name f, f_path f))
          (filter (\<lambda>f. f_xxhash f = Some digest) (files db)))"

text \<open>
  \<open>delete_tape\<close>: \<open>DELETE FROM files WHERE tape_name = ?\<close>, then \<open>DELETE FROM tapes WHERE
  name = ?\<close>; returns whether a tape row was deleted.
\<close>

definition delete_tape :: "catalog \<Rightarrow> pystr \<Rightarrow> bool \<times> catalog" where
  "delete_tape db tape_name =
     (tape_name \<in> set (map t_name (tapes db)),
      db \<lparr> files := filter (\<lambda>f. f_tape_name f \<noteq> tape_name) (files db),
           tapes := filter (\<lambda>t. t_name t \<noteq> tape_name) (tapes db) \<rparr>)"

text \<open>The write operations of the catalog, and a history of them from the empty database.\<close>

datatype catalog_op =
    AddTape pystr "pystr option" "pystr option" "datetime option"
  | AddFiles datetime pystr "file_tuple list" "datetime option"
  | DeleteTape pystr

fun apply_op :: "'h library \<Rightarrow> (file_row \<Rightarrow> bool) \<Rightarrow> catalog \<Rightarrow> catalog_op \<Rightarrow> catalog" where
  "apply_op L rejects db (AddTape name volume_uuid barcode created_at) =
     snd (add_tape db name volume_uuid barcode created_at)"
| "apply_op L rejects db (AddFiles now tape_name fs archived_at) =
     snd (add_files L rejects now db tape_name fs archived_at)"
| "apply_op L rejects db (DeleteTape tape_name) = snd (delete_tape db tape_name)"

definition run_ops :: "'h library \<Rightarrow> (file_row \<Rightarrow> bool) \<Rightarrow> catalog_op list \<Rightarrow> catalog" where
  "run_ops L rejects ops = foldl (apply_op L rejects) empty_catalog ops"

text \<open>
  The stored aggregates of every volume agree with its rows, and every row belongs to
  a volume that has a record.
\<close>

definition aggregates_ok :: "catalog \<Rightarrow> bool" where
  "aggregates_ok db \<longleftrightarrow>
     list_all (\<lambda>t. t_file_count t = int (length (volume_rows db (t_name t)))
                 \<and> t_total_bytes t = sum_list (map f_size (volume_rows db (t_name t))))
       (tapes db)"

definition no_orphans :: "catalog \<Rightarrow> bool" where
  "no_orphans db \<longleftrightarrow> list_all (\<lambda>f. f_tape_name f \<in> set (map t_name (tapes db))) (files db)"

section \<open>Text conversions of the standard library\<close>

text \<open>
  \<open>str(n)\<close> of an integer is its decimal text; \<open>int(s)\<close> is modelled on decimal text
  (an optional minus sign and at least one ASCII digit) and raises \<open>ValueError\<close>
  (\<open>None\<close>) on anything else. Python's \<open>int\<close> also accepts surrounding white space, a
  plus sign, underscores and non-ASCII digits; \<open>str\<close> produces none of these.
\<close>

function str_nat :: "nat \<Rightarrow> pystr" where
  "str_nat n = (if n < 10 then [48 + n] else str_nat (n div 10) @ [48 + n mod 10])"
  by pat_completeness auto
termination
  by (relation "measure (\<lambda>n. n)") auto

definition str_int :: "int \<Rightarrow> pystr" where
  "str_int i = (if i < 0 then 45 # str_nat (nat (- i)) else str_nat (nat i))"

definition is_digit :: "nat \<Rightarrow> bool" where
  "is_digit c \<longleftrightarrow> 48 \<le> c \<and> c \<le> 57"

fun digits_value :: "nat \<Rightarrow> pystr \<Rightarrow> nat option" where
  "digits_value acc [] = Some acc"
| "digits_value acc (c # cs) =
     (if is_digit c then digits_value (10 * acc + (c - 48)) cs else None)"

definition int_of_str :: "pystr \<Rightarrow> int option" where
  "int_of_str s =
     (case s of
        [] \<Rightarrow> None
      | c # cs \<Rightarrow>
          if c = 45 then (if cs = [] then None else map_option (\<lambda>n. - int n) (digits_value 0 cs))
          else map_option int (digits_value 0 s))"

text \<open>
  \<open>strftime\<close> fields: two and four decimal digits, zero padded. Every field of a
  datetime but the year is below 100; a year from 1000 to 9999 prints as four digits on
  every platform.
\<close>

definition pad2 :: "nat \<Rightarrow> pystr" where
  "pad2 n = [48 + n div 10 mod 10, 48 + n mod 10]"

definition pad4 :: "nat \<Rightarrow> pystr" where
  "pad4 n = [48 + n div 1000 mod 10, 48 + n div 100 mod 10, 48 + n div 10 mod 10, 48 + n mod 10]"

text \<open>\<open>d.strftime("%Y-%m-%dT%H:%M:%SZ")\<close>\<close>

definition strftime_iso :: "datetime \<Rightarrow> pystr" where
  "strftime_iso d =
     pad4 (year d) @ [45] @ pad2 (month d) @ [45] @ pad2 (day d) @ [84]
       @ pad2 (hour d) @ [58] @ pad2 (minute d) @ [58] @ pad2 (second d) @ [90]"

text \<open>\<open>d.strftime("%Y%m%d_%H%M%S")\<close>\<close>

definition strftime_compact :: "datetime \<Rightarrow> pystr" where
  "strftime_compact d =
     pad4 (year d) @ pad2 (month d) @ pad2 (day d) @ [95]
       @ pad2 (hour d) @ pad2 (minute d) @ pad2 (second d)"

definition is_leap :: "nat \<Rightarrow> bool" where
  "is_leap y \<longleftrightarrow> y mod 4 = 0 \<and> (y mod 100 \<noteq> 0 \<or> y mod 400 = 0)"

definition days_in_month :: "nat \<Rightarrow> nat \<Rightarrow> nat" where
  "days_in_month y m =
     (if m = 2 then (if is_leap y then 29 else 28)
      else if m = 4 \<or> m = 6 \<or> m = 9 \<or> m = 11 then 30 else 31)"

text \<open>The values the \<open>datetime\<close> constructor accepts.\<close>

definition valid_datetime :: "datetime \<Rightarrow> bool" where
  "valid_datetime d \<longleftrightarrow>
     1 \<le> year d \<and> year d \<le> 9999 \<and> 1 \<le> month d \<and> month d \<le> 12 \<and>
     1 \<le> day d \<and> day d \<le> days_in_month (year d) (month d) \<and>
     hour d < 24 \<and> minute d < 60 \<and> second d < 60 \<and> microsecond d < 1000000"

text \<open>
  \<open>datetime.strptime(s, "%Y-%m-%dT%H:%M:%SZ").replace(tzinfo=timezone.utc)\<close>, modelled on
  the fixed-width text that \<open>strftime\<close> writes: twenty characters, digits in the six
  fields; \<open>None\<close> is \<open>ValueError\<close>. (\<open>strptime\<close> also accepts fields without the leading
  zero; \<open>strftime\<close> writes none.) The result has no microseconds.
\<close>

definition strptime_iso :: "pystr \<Rightarrow> datetime option" where
  "strptime_iso s =
     (if length s = 20 \<and> s ! 4 = 45 \<and> s ! 7 = 45 \<and> s ! 10 = 84 \<and> s ! 13 = 58
         \<and> s ! 16 = 58 \<and> s ! 19 = 90
      then
        (case (digits_value 0 (take 4 s), digits_value 0 (take 2 (drop 5 s)),
               digits_value 0 (take 2 (drop 8 s)), digits_value 0 (take 2 (drop 11 s)),
               digits_value 0 (take 2 (drop 14 s)), digits_value 0 (take 2 (drop 17 s))) of
           (Some y, Some m, Some d, Some H, Some M, Some S) \<Rightarrow>
             (if valid_datetime \<lparr> year = y, month = m, day = d, hour = H, minute = M,
                                  second = S, microsecond = 0 \<rparr>
              then Some \<lparr> year = y, month = m, day = d, hour = H, minute = M,
                          second = S, microsecond = 0 \<rparr>
              else None)
         | _ \<Rightarrow> None)
      else None)"

section \<open>xml.etree.ElementTree\<close>

text \<open>
  An element: tag, attributes, text and children. (The pretty printer's white space
  between elements lands in text and tails that no function below reads.)
\<close>

datatype xml = Element (tag: pystr) (attrib: "(pystr \<times> pystr) list") (elem_text: "pystr option")
  (children: "xml list")

text \<open>\<open>elem.find(tag)\<close>, \<open>elem.findall(tag)\<close>, \<open>elem.findtext(tag)\<close> and \<open>elem.findtext(tag, default)\<close>, \<open>elem.get(key, default)\<close>\<close>

definition find_elem :: "xml \<Rightarrow> pystr \<Rightarrow> xml option" where
  "find_elem elem name = find (\<lambda>c. tag c = name) (children elem)"

definition findall :: "xml \<Rightarrow> pystr \<Rightarrow> xml list" where
  "findall elem name = filter (\<lambda>c. tag c = name) (children elem)"

definition findtext :: "xml \<Rightarrow> pystr \<Rightarrow> pystr option" where
  "findtext elem name =
     (case find_elem elem name of
        None \<Rightarrow> None
      | Some c \<Rightarrow> Some (case elem_text c of None \<Rightarrow> [] | Some t \<Rightarrow> t))"

definition findtext_default :: "xml \<Rightarrow> pystr \<Rightarrow> pystr \<Rightarrow> pystr" where
  "findtext_default elem name dflt = (case findtext elem name of None \<Rightarrow> dflt | Some t \<Rightarrow> t)"

definition get_attrib :: "xml \<Rightarrow> pystr \<Rightarrow> pystr \<Rightarrow> pystr" where
  "get_attrib elem key dflt = (case map_of (attrib elem) key of None \<Rightarrow> dflt | Some v \<Rightarrow> v)"

text \<open>\<open>ET.SubElement(parent, tag)\<close> followed by \<open>child.text = t\<close>: a new last child.\<close>

definition SubElement :: "xml \<Rightarrow> pystr \<Rightarrow> pystr \<Rightarrow> xml" where
  "SubElement parent name t =
     Element (tag parent) (attrib parent) (elem_text parent)
       (children parent @ [Element name [] (Some t) []])"

text \<open>
  Writing a document as text and parsing it back. The characters XML 1.0 allows are
  \<open>#x9 | #xA | #xD | [#x20-#xD7FF] | [#xE000-#xFFFD] | [#x10000-#x10FFFF]\<close>; any other
  character in a text or an attribute makes the written file unparsable (or, for a
  surrogate, not writable as UTF-8). A parser reads a carriage return, alone or before a
  line feed, as one line feed, and returns no text for an empty element.
\<close>

definition xml_char :: "nat \<Rightarrow> bool" where
  "xml_char c \<longleftrightarrow>
     c = 9 \<or> c = 10 \<or> c = 13 \<or> (32 \<le> c \<and> c \<le> 55295) \<or> (57344 \<le> c \<and> c \<le> 65533)
       \<or> (65536 \<le> c \<and> c \<le> 1114111)"

fun line_ends :: "pystr \<Rightarrow> pystr" where
  "line_ends [] = []"
| "line_ends [c] = (if c = 13 then [10] else [c])"
| "line_ends (c # c' # cs) =
     (if c = 13 then (if c' = 10 then 10 # line_ends cs else 10 # line_ends (c' # cs))
      else c # line_ends (c' # cs))"

definition reparse_text :: "pystr option \<Rightarrow> pystr option option" where
  "reparse_text t =
     (case t of
        None \<Rightarrow> Some None
      | Some s \<Rightarrow> if list_all xml_char s
                  then Some (if s = [] then None else Some (line_ends s))
                  else None)"

fun reparse :: "xml \<Rightarrow> xml option" where
  "reparse (Element name attrs t cs) =
     (if list_all (\<lambda>(k, v). list_all xml_char v) attrs
      then (case reparse_text t of
              None \<Rightarrow> None
            | Some t' \<Rightarrow> map_option (Element name attrs t') (those (map reparse cs)))
      else None)"

section \<open>mhl.py\<close>

text \<open>
  \<open>sanitize_xml_string\<close>: \<open>re.sub\<close> with the class
  \<open>[\x00-\x08\x0b\x0c\x0e-\x1f\x7f-\x9f\ud800-\udfff\ufffe\uffff]\<close> and an empty
  replacement deletes exactly the characters of the class.
\<close>

definition invalid_xml_chars :: "nat \<Rightarrow> bool" where
  "invalid_xml_chars c \<longleftrightarrow>
     c \<le> 8 \<or> c = 11 \<or> c = 12 \<or> (14 \<le> c \<and> c \<le> 31) \<or> (127 \<le> c \<and> c \<le> 159)
       \<or> (55296 \<le> c \<and> c \<le> 57343) \<or> c = 65534 \<or> c = 65535"

definition sanitize_xml_string :: "pystr \<Rightarrow> pystr" where
  "sanitize_xml_string s = filter (\<lambda>c. \<not> invalid_xml_chars c) s"

record HashEntry =
  h_file :: pystr
  h_size :: int
  h_xxhash64be :: pystr
  h_last_modification_date :: "datetime option"
  h_hash_date :: "datetime option"

record CreatorInfo =
  c_name :: pystr
  c_username :: pystr
  c_hostname :: pystr
  c_tool :: pystr
  c_start_date :: "datetime option"
  c_finish_date :: "datetime option"

record TapeInfo =
  ti_name :: pystr
  ti_serial :: pystr
  ti_vendor :: pystr
  ti_product :: pystr

record MHL =
  version :: pystr
  creator_info :: CreatorInfo
  tape_info :: "TapeInfo option"
  hashes :: "HashEntry list"

text \<open>
  The fields of the dataclasses carry a prefix here (\<open>h_\<close>, \<open>c_\<close>, \<open>ti_\<close>): several of
  their names are constants of the logic.
\<close>

text \<open>
  Adding an optional child: \<open>if value: ET.SubElement(...)\<close>. A datetime object is
  always true; a string is true when it is not empty.
\<close>

definition sub_date :: "pystr \<Rightarrow> datetime option \<Rightarrow> xml \<Rightarrow> xml" where
  "sub_date name d elem =
     (case d of None \<Rightarrow> elem | Some x \<Rightarrow> SubElement elem name (strftime_iso x))"

definition sub_text :: "pystr \<Rightarrow> pystr \<Rightarrow> xml \<Rightarrow> xml" where
  "sub_text name t elem = (if t = [] then elem else SubElement elem name t)"

text \<open>\<open>HashEntry.to_element\<close>\<close>

definition HashEntry_to_element :: "'h library \<Rightarrow> HashEntry \<Rightarrow> xml" where
  "HashEntry_to_element L e =
     sub_date (py ''hashdate'') (h_hash_date e)
       (SubElement
          (sub_date (py ''lastmodificationdate'') (h_last_modification_date e)
             (SubElement
                (SubElement (Element (py ''hash'') [] None []) (py ''file'')
                   (sanitize_xml_string (normalize_path L (h_file e))))
                (py ''size'') (str_int (h_size e))))
          (py ''xxhash64be'') (h_xxhash64be e))"

text \<open>
  Reading an optional date: \<open>findtext\<close> without default, then \<open>strptime\<close> when the
  text is not empty; a \<open>ValueError\<close> leaves the date \<open>None\<close>.
\<close>

definition date_of :: "xml \<Rightarrow> pystr \<Rightarrow> datetime option" where
  "date_of elem name =
     (case findtext elem name of
        None \<Rightarrow> None
      | Some s \<Rightarrow> if s = [] then None else strptime_iso s)"

text \<open>\<open>HashEntry.from_element\<close>; \<open>int(...)\<close> may raise \<open>ValueError\<close>.\<close>

definition HashEntry_from_element :: "'h library \<Rightarrow> xml \<Rightarrow> py_exception + HashEntry" where
  "HashEntry_from_element L elem =
     (case int_of_str (findtext_default elem (py ''size'') (py ''0'')) of
        None \<Rightarrow> Inl ValueError
      | Some n \<Rightarrow>
          Inr \<lparr> h_file = normalize_path L (findtext_default elem (py ''file'') []),
                h_size = n,
                h_xxhash64be = findtext_default elem (py ''xxhash64be'') [],
                h_last_modification_date = date_of elem (py ''lastmodificationdate''),
                h_hash_date = date_of elem (py ''hashdate'') \<rparr>)"

text \<open>\<open>CreatorInfo.to_element\<close> and \<open>from_element\<close>\<close>

definition CreatorInfo_to_element :: "CreatorInfo \<Rightarrow> xml" where
  "CreatorInfo_to_element c =
     sub_date (py ''finishdate'') (c_finish_date c)
       (sub_date (py ''startdate'') (c_start_date c)
          (sub_text (py ''tool'') (c_tool c)
             (sub_text (py ''hostname'') (c_hostname c)
                (sub_text (py ''username'') (c_username c)
                   (sub_text (py ''name'') (c_name c)
                      (Element (py ''creatorinfo'') [] None []))))))"

definition CreatorInfo_from_element :: "xml \<Rightarrow> CreatorInfo" where
  "CreatorInfo_from_element elem =
     \<lparr> c_name = findtext_default elem (py ''name'') [],
       c_username = findtext_default elem (py ''username'') [],
       c_hostname = findtext_default elem (py ''hostname'') [],
       c_tool = findtext_default elem (py ''tool'') [],
       c_start_date = date_of elem (py ''startdate''),
       c_finish_date = date_of elem (py ''finishdate'') \<rparr>"

text \<open>\<open>TapeInfo.to_element\<close> and \<open>from_element\<close>\<close>

definition TapeInfo_to_element :: "TapeInfo \<Rightarrow> xml" where
  "TapeInfo_to_element t =
     sub_text (py ''product'') (ti_product t)
       (sub_text (py ''vendor'') (ti_vendor t)
          (sub_text (py ''serial'') (ti_serial t)
             (sub_text (py ''name'') (ti_name t)
                (Element (py ''tapeinfo'') [] None []))))"

definition TapeInfo_from_element :: "xml \<Rightarrow> TapeInfo" where
  "TapeInfo_from_element elem =
     \<lparr> ti_name = findtext_default elem (py ''name'') [],
       ti_serial = findtext_default elem (py ''serial'') [],
       ti_vendor = findtext_default elem (py ''vendor'') [],
       ti_product = findtext_default elem (py ''product'') [] \<rparr>"

text \<open>\<open>MHL.add_hash\<close>\<close>

definition add_hash :: "MHL \<Rightarrow> HashEntry \<Rightarrow> MHL" where
  "add_hash mhl entry = mhl \<lparr> hashes := hashes mhl @ [entry] \<rparr>"

text \<open>
  \<open>MHL.to_xml\<close> builds this tree and serialises it; \<open>MHL.save\<close> writes the text with
  \<open>write_text\<close>, which replaces the content of an existing file.
\<close>

definition to_xml :: "'h library \<Rightarrow> MHL \<Rightarrow> xml" where
  "to_xml L mhl =
     Element (py ''hashlist'') [(py ''version'', version mhl)] None
       ([CreatorInfo_to_element (creator_info mhl)]
        @ (case tape_info mhl of None \<Rightarrow> [] | Some t \<Rightarrow> [TapeInfo_to_element t])
        @ map (HashEntry_to_element L) (hashes mhl))"

type_synonym directory = "pystr \<Rightarrow> xml option"

definition save :: "'h library \<Rightarrow> MHL \<Rightarrow> pystr \<Rightarrow> directory \<Rightarrow> directory" where
  "save L mhl filepath dir = dir (filepath \<mapsto> to_xml L mhl)"

text \<open>The loop \<open>for hash_elem in root.findall("hash")\<close>: the first exception ends it.\<close>

fun entries_from :: "'h library \<Rightarrow> xml list \<Rightarrow> py_exception + HashEntry list" where
  "entries_from L [] = Inr []"
| "entries_from L (e # es) =
     (case HashEntry_from_element L e of
        Inl x \<Rightarrow> Inl x
      | Inr entry \<Rightarrow> (case entries_from L es of Inl x \<Rightarrow> Inl x | Inr rest \<Rightarrow> Inr (entry # rest)))"

text \<open>
  \<open>MHL.load\<close> on a parsed root. \<open>default_creator\<close> is \<open>CreatorInfo.default()\<close>, which the
  constructor calls and which reads the user, the host and the clock.
\<close>

definition load_root :: "'h library \<Rightarrow> CreatorInfo \<Rightarrow> xml \<Rightarrow> py_exception + MHL" where
  "load_root L default_creator doc =
     (case entries_from L (findall doc (py ''hash'')) of
        Inl x \<Rightarrow> Inl x
      | Inr es \<Rightarrow>
          Inr \<lparr> version = get_attrib doc (py ''version'') (py ''1.1''),
                creator_info = (case find_elem doc (py ''creatorinfo'') of
                                  None \<Rightarrow> default_creator
                                | Some c \<Rightarrow> CreatorInfo_from_element c),
                tape_info = map_option TapeInfo_from_element (find_elem doc (py ''tapeinfo'')),
                hashes = es \<rparr>)"

text \<open>\<open>MHL.load(filepath)\<close>: no such file, a text that does not parse, or \<open>load_root\<close>.\<close>

definition load :: "'h library \<Rightarrow> CreatorInfo \<Rightarrow> pystr \<Rightarrow> directory \<Rightarrow> py_exception + MHL" where
  "load L default_creator filepath dir =
     (case dir filepath of
        None \<Rightarrow> Inl FileNotFoundError
      | Some doc \<Rightarrow>
          (case reparse doc of
             None \<Rightarrow> Inl ParseError
           | Some parsed \<Rightarrow> load_root L default_creator parsed))"

section \<open>transfer.py\<close>

subsection \<open>The result of a transfer\<close>

text \<open>
  \<open>TransferResult\<close>. Clock readings are seconds on the real line and durations their
  differences; Python's floats are modelled as reals.
\<close>

record transfer_result =
  source :: pystr
  destination :: pystr
  tape_name :: pystr
  start_time :: real
  end_time :: real
  files_total :: nat
  files_transferred :: nat
  files_verified :: nat
  files_failed :: nat
  bytes_total :: nat
  failed_files :: "pystr list"
  mhl_path :: "pystr option"
  log_path :: "pystr option"
  catalog_path :: "pystr option"
  phase1_duration :: real
  phase2_duration :: real
  phase3_duration :: real
  phase4_duration :: real
  phase5_duration :: real

definition duration_seconds :: "transfer_result \<Rightarrow> real" where
  "duration_seconds r = end_time r - start_time r"

definition success :: "transfer_result \<Rightarrow> bool" where
  "success r \<longleftrightarrow> files_failed r = 0"

text \<open>The float division \<open>a / b\<close>: \<open>ZeroDivisionError\<close> when \<open>b\<close> is zero.\<close>

definition truediv :: "real \<Rightarrow> real \<Rightarrow> py_exception + real" where
  "truediv a b = (if b = 0 then Inl ZeroDivisionError else Inr (a / b))"

text \<open>\<open>total_mb = bytes_total / (1024 * 1024)\<close>\<close>

definition total_mb :: "transfer_result \<Rightarrow> real" where
  "total_mb r = real (bytes_total r) / (1024 * 1024)"

text \<open>
  The properties \<open>phase1_throughput\<close>, \<open>phase2_throughput\<close>, \<open>phase3_throughput\<close>:
  \<open>total_mb / duration if duration > 0 else 0\<close>.
\<close>

definition phase1_throughput :: "transfer_result \<Rightarrow> real" where
  "phase1_throughput r = (if phase1_duration r > 0 then total_mb r / phase1_duration r else 0)"

definition phase2_throughput :: "transfer_result \<Rightarrow> real" where
  "phase2_throughput r = (if phase2_duration r > 0 then total_mb r / phase2_duration r else 0)"

definition phase3_throughput :: "transfer_result \<Rightarrow> real" where
  "phase3_throughput r = (if phase3_duration r > 0 then total_mb r / phase3_duration r else 0)"

subsection \<open>Counting and excluding\<close>

text \<open>
  \<open>check_source\<close> over the regular files of the walk: every file counts, its size is
  added when \<open>stat\<close> succeeds.
\<close>

definition check_source :: "fs_file list \<Rightarrow> nat \<times> nat" where
  "check_source fs =
     (length fs, sum_list (map (\<lambda>f. case stat f of None \<Rightarrow> 0 | Some s \<Rightarrow> st_size s) fs))"

text \<open>
  \<open>path.parts\<close> of a relative path given as its text: the components between slashes.
\<close>

fun parts_from :: "pystr \<Rightarrow> pystr \<Rightarrow> pystr list" where
  "parts_from cur [] = (if cur = [] then [] else [cur])"
| "parts_from cur (c # cs) =
     (if c = 47 then (if cur = [] then parts_from [] cs else cur # parts_from [] cs)
      else parts_from (cur @ [c]) cs)"

definition path_parts :: "pystr \<Rightarrow> pystr list" where
  "path_parts p = parts_from [] p"

text \<open>\<open>s.startswith(p)\<close> and \<open>p in s\<close> on strings.\<close>

fun startswith :: "pystr \<Rightarrow> pystr \<Rightarrow> bool" where
  "startswith s [] = True"
| "startswith [] (p # ps) = False"
| "startswith (c # cs) (p # ps) = (c = p \<and> startswith cs ps)"

fun str_contains :: "pystr \<Rightarrow> pystr \<Rightarrow> bool" where
  "str_contains [] p = (p = [])"
| "str_contains (c # cs) p = (startswith (c # cs) p \<or> str_contains cs p)"

definition has_wildcard :: "pystr \<Rightarrow> bool" where
  "has_wildcard pattern \<longleftrightarrow> 42 \<in> set pattern \<or> 63 \<in> set pattern"

text \<open>
  \<open>_should_exclude(path, patterns)\<close>: the first pattern that matches returns \<open>True\<close>.
  A pattern ending in a slash is a directory pattern, one with a wildcard and a slash
  is matched against the whole path, one with a wildcard only against every component,
  and any other pattern is searched in the path text.
\<close>

fun should_exclude :: "'h library \<Rightarrow> pystr \<Rightarrow> pystr list \<Rightarrow> bool" where
  "should_exclude L path [] = False"
| "should_exclude L path (pattern # patterns) =
     (if pattern \<noteq> [] \<and> last pattern = 47 then
        (if list_ex (\<lambda>part. part = butlast pattern \<or> fnmatch L part (butlast pattern))
              (path_parts path)
         then True else should_exclude L path patterns)
      else if has_wildcard pattern \<and> 47 \<in> set pattern then
        (if fnmatch L path pattern then True else should_exclude L path patterns)
      else if has_wildcard pattern then
        (if list_ex (\<lambda>part. fnmatch L part pattern) (path_parts path)
         then True else should_exclude L path patterns)
      else if str_contains path pattern then True
      else should_exclude L path patterns)"

subsection \<open>Phase 1: hashing the source\<close>

text \<open>
  A Python \<open>dict\<close> keeps its keys in insertion order; assigning to a key that is
  present replaces the value in place.
\<close>

fun dict_set :: "'k \<Rightarrow> 'v \<Rightarrow> ('k \<times> 'v) list \<Rightarrow> ('k \<times> 'v) list" where
  "dict_set k v [] = [(k, v)]"
| "dict_set k v (kv # kvs) = (if fst kv = k then (k, v) # kvs else kv # dict_set k v kvs)"

type_synonym ledger = "(pystr \<times> pystr \<times> nat) list"

text \<open>
  The state of the loop: the ledger \<open>source_hashes\<close> (canonical path to digest and
  size), \<open>excluded_files\<close>, \<open>bytes_processed\<close>, and the paths of the warnings printed
  for files that could not be hashed.
\<close>

record phase1_state =
  source_hashes :: ledger
  excluded_files :: "pystr list"
  bytes_processed :: nat
  warned :: "pystr list"

definition phase1_init :: phase1_state where
  "phase1_init = \<lparr> source_hashes = [], excluded_files = [], bytes_processed = 0, warned = [] \<rparr>"

definition phase1_step :: "'h library \<Rightarrow> pystr list \<Rightarrow> phase1_state \<Rightarrow> fs_file \<Rightarrow> phase1_state" where
  "phase1_step L excludes st f =
     (if should_exclude L (rel_path f) excludes
      then st \<lparr> excluded_files := excluded_files st @ [rel_path f] \<rparr>
      else
        (case stat f of
           None \<Rightarrow> st \<lparr> warned := warned st @ [rel_path f] \<rparr>
         | Some s \<Rightarrow>
             (case hash_file L f DEFAULT_CHUNK_SIZE of
                Inl e \<Rightarrow> st \<lparr> warned := warned st @ [rel_path f] \<rparr>
              | Inr file_hash \<Rightarrow>
                  st \<lparr> source_hashes :=
                         dict_set (normalize_path L (rel_path f)) (file_hash, st_size s)
                           (source_hashes st),
                       bytes_processed := bytes_processed st + st_size s \<rparr>)))"

definition phase1 :: "'h library \<Rightarrow> pystr list \<Rightarrow> fs_file list \<Rightarrow> phase1_state" where
  "phase1 L excludes fs = foldl (phase1_step L excludes) phase1_init fs"

subsection \<open>Phase 3: verifying the destination\<close>

text \<open>
  One destination file of the walk. A file whose canonical path is not in the ledger
  is skipped. Otherwise it is hashed and its size read; an \<open>OSError\<close> is a failure
  \<open>(read error: ...)\<close>, an unequal digest a failure \<open>(hash mismatch)\<close>. The state is the
  result and \<open>bytes_verified\<close>.
\<close>

definition phase3_step ::
  "'h library \<Rightarrow> ledger \<Rightarrow> transfer_result \<times> nat \<Rightarrow> fs_file \<Rightarrow> transfer_result \<times> nat" where
  "phase3_step L ledger acc f =
     (case map_of ledger (normalize_path L (rel_path f)) of
        None \<Rightarrow> acc
      | Some (source_hash, expected_size) \<Rightarrow>
          (case (hash_file L f DEFAULT_CHUNK_SIZE, stat f) of
             (Inr dest_hash, Some s) \<Rightarrow>
               (if source_hash = dest_hash
                then (fst acc) \<lparr> files_verified := files_verified (fst acc) + 1 \<rparr>
                else (fst acc) \<lparr> files_failed := files_failed (fst acc) + 1,
                       failed_files := failed_files (fst acc)
                         @ [normalize_path L (rel_path f) @ py '' (hash mismatch)''] \<rparr>,
                snd acc + st_size s)
           | _ \<Rightarrow>
               ((fst acc) \<lparr> files_failed := files_failed (fst acc) + 1,
                   failed_files := failed_files (fst acc)
                     @ [normalize_path L (rel_path f) @ py '' (read error: '' @ strerror f
                          @ py '')''] \<rparr>,
                snd acc)))"

text \<open>
  The check for missing files: every key of the ledger that is not the canonical path
  of a destination file is a failure \<open>(missing)\<close>.
\<close>

definition missing_step :: "pystr list \<Rightarrow> transfer_result \<Rightarrow> pystr \<Rightarrow> transfer_result" where
  "missing_step dest_paths r p =
     (if p \<in> set dest_paths then r
      else r \<lparr> files_failed := files_failed r + 1,
               failed_files := failed_files r @ [p @ py '' (missing)''] \<rparr>)"

definition phase3 :: "'h library \<Rightarrow> ledger \<Rightarrow> fs_file list \<Rightarrow> transfer_result \<Rightarrow> transfer_result" where
  "phase3 L ledger dest r =
     (let walked = fst (foldl (phase3_step L ledger) (r, 0) dest);
          checked = foldl (missing_step (map (\<lambda>d. normalize_path L (rel_path d)) dest))
                      walked (map fst ledger)
      in checked \<lparr> files_transferred := files_verified checked \<rparr>)"

subsection \<open>The job and the world around it\<close>

text \<open>
  What a run of \<open>transfer\<close> is given and what it meets outside the program: the
  arguments and the configuration, the walk of the source tree, whether \<open>rsync\<close> is
  found and what it prints, the walk of the destination subtree after the copy (and
  whether that directory exists, which \<open>recover\<close> and \<open>finalize\<close> ask), the
  readings of the clock, and the failures of the operating system and of the database
  engine. \<open>touch_error\<close> is the exception, if any, that creating the placeholder of a path
  raises; \<open>add_tape_error\<close> and \<open>add_files_error\<close> are exceptions the database layer
  raises when it is opened for \<open>add_tape\<close> and while \<open>add_files\<close> writes.
\<close>

record job =
  excludes :: "pystr list"
  source_path :: pystr
  source_name :: pystr
  mount_point :: pystr
  mount_point_name :: pystr
  tape_name_arg :: "pystr option"
  dry_run :: bool
  verify :: bool
  source_exists :: bool
  is_mounted :: bool
  dest_dir_exists :: bool
  source_files :: "fs_file list"
  rsync_found :: bool
  rsync_output :: "pystr list"
  dest_files :: "fs_file list"
  default_creator :: CreatorInfo
  timestamp :: datetime
  start_datetime :: datetime
  finish_datetime :: datetime
  hash_clock :: "nat \<Rightarrow> datetime"
  archived_datetime :: datetime
  clock_start :: real
  clock_phase1_start :: real
  clock_phase1_end :: real
  clock_phase2_start :: real
  clock_phase2_end :: real
  clock_phase3_start :: real
  clock_phase3_end :: real
  clock_phase4_start :: real
  clock_phase4_end :: real
  clock_phase5_start :: real
  clock_phase5_end :: real
  clock_end :: real
  touch_error :: "pystr \<Rightarrow> py_exception option"
  add_tape_error :: "py_exception option"
  add_files_error :: "py_exception option"
  rejects_row :: "file_row \<Rightarrow> bool"

text \<open>
  A line of the job log: fixed text, or a label with a text, a count, a time in
  seconds or a rate in MB/s. The formatting of the numbers is left out.
\<close>

datatype log_line =
    Line pystr
  | Str pystr pystr
  | Num pystr nat
  | Secs pystr real
  | Rate pystr real

text \<open>
  The files the program writes: the manifests under \<open>config.mhl_dir\<close> and the logs under
  \<open>config.log_dir\<close> by file name, the placeholders under \<open>config.catalog_dir\<close> by their
  path below it (with the modification time copied from the tape file, if any), and
  the catalog database.
\<close>

record world =
  mhl_dir :: directory
  log_dir :: "pystr \<Rightarrow> log_line list option"
  catalog_dir :: "pystr \<Rightarrow> datetime option option"
  database :: catalog

definition write_log :: "pystr \<Rightarrow> log_line list \<Rightarrow> world \<Rightarrow> world" where
  "write_log path ls W = W \<lparr> log_dir := (log_dir W) (path \<mapsto> ls) \<rparr>"

definition append_log :: "pystr \<Rightarrow> log_line list \<Rightarrow> world \<Rightarrow> world" where
  "append_log path ls W =
     W \<lparr> log_dir := (log_dir W) (path \<mapsto> (case log_dir W path of None \<Rightarrow> [] | Some old \<Rightarrow> old) @ ls) \<rparr>"

text \<open>\<open>tape_name or config.mount_point.name\<close>: an empty name counts as none.\<close>

definition job_tape_name :: "job \<Rightarrow> pystr" where
  "job_tape_name J =
     (case tape_name_arg J of
        None \<Rightarrow> mount_point_name J
      | Some n \<Rightarrow> if n = [] then mount_point_name J else n)"

text \<open>
  \<open>f"transfer_{tape_name}_{source_name}_{timestamp}.log"\<close> and
  \<open>f"{tape_name}_{source_name}_{timestamp}.mhl"\<close>, where \<open>timestamp\<close> is
  \<open>datetime.now().strftime("%Y%m%d_%H%M%S")\<close>.
\<close>

definition log_name :: "pystr \<Rightarrow> pystr \<Rightarrow> datetime \<Rightarrow> pystr" where
  "log_name tape src ts =
     py ''transfer_'' @ tape @ py ''_'' @ src @ py ''_'' @ strftime_compact ts @ py ''.log''"

definition mhl_name :: "pystr \<Rightarrow> pystr \<Rightarrow> datetime \<Rightarrow> pystr" where
  "mhl_name tape src ts = tape @ py ''_'' @ src @ py ''_'' @ strftime_compact ts @ py ''.mhl''"

text \<open>\<open>TransferResult(source, destination, tape_name, start_time, end_time=start_time)\<close>\<close>

definition new_result :: "job \<Rightarrow> transfer_result" where
  "new_result J =
     \<lparr> source = source_path J,
       destination = mount_point J @ py ''/'' @ source_name J,
       tape_name = job_tape_name J,
       start_time = clock_start J, end_time = clock_start J,
       files_total = 0, files_transferred = 0, files_verified = 0, files_failed = 0,
       bytes_total = 0, failed_files = [], mhl_path = None, log_path = None,
       catalog_path = None,
       phase1_duration = 0, phase2_duration = 0, phase3_duration = 0,
       phase4_duration = 0, phase5_duration = 0 \<rparr>"

subsection \<open>Phase 2: the log and the copy\<close>

text \<open>The lines written to the new log file before the throughput of phase 1.\<close>

definition log_header :: "job \<Rightarrow> transfer_result \<Rightarrow> phase1_state \<Rightarrow> log_line list" where
  "log_header J r st =
     [Line (py ''LTFS Transfer Log''), Line (py ''================''),
      Str (py ''Source'') (source r), Str (py ''Destination'') (destination r),
      Str (py ''Tape'') (tape_name r), Secs (py ''Started'') (start_time r),
      Num (py ''Files counted'') (files_total r),
      Num (py ''Files to transfer'') (length (source_hashes st))]
     @ (if excluded_files st = [] then []
        else [Num (py ''Files excluded'') (length (excluded_files st)),
              Line (py ''--- Excluded files ---'')]
             @ map (\<lambda>x. Line (py ''  '' @ x)) (excluded_files st))
     @ [Line (py ''--- Phase 1 (Hash source) ---''),
        Secs (py ''Started'') (clock_phase1_start J),
        Secs (py ''Finished'') (clock_phase1_end J),
        Secs (py ''Duration'') (clock_phase1_end J - clock_phase1_start J)]"

text \<open>
  The log is opened for writing and the header written; the throughput line divides
  by the duration of phase 1. Then \<open>rsync\<close> runs and its output is copied to the log; if
  the program is not found the job raises \<open>TransferError\<close>. After the copy the completion
  lines are appended, with a throughput line that divides by the duration of phase 2.
  An exception raised inside a \<open>with open(...)\<close> block leaves the lines written so far.
\<close>

definition phase2 ::
  "job \<Rightarrow> transfer_result \<Rightarrow> phase1_state \<Rightarrow> world \<Rightarrow> (py_exception + transfer_result) \<times> world" where
  "phase2 J r st W =
     (let path = log_name (tape_name r) (source_name J) (timestamp J) in
      case truediv (total_mb r) (clock_phase1_end J - clock_phase1_start J) of
        Inl e \<Rightarrow> (Inl e, write_log path (log_header J r st) W)
      | Inr rate1 \<Rightarrow>
          (let opened = log_header J r st
                 @ [Rate (py ''Throughput'') rate1, Line (py ''--- Phase 2 (Transfer) ---''),
                    Secs (py ''Started'') (clock_phase2_start J),
                    Line (py ''--- rsync output ---'')]
           in if \<not> rsync_found J
              then (Inl (TransferError (py ''rsync not found in PATH'')), write_log path opened W)
              else
                (let W1 = write_log path (opened @ map Line (rsync_output J)) W;
                     completed = [Line (py ''--- Phase 2 completed ---''),
                                  Secs (py ''Finished'') (clock_phase2_end J),
                                  Secs (py ''Duration'') (clock_phase2_end J - clock_phase2_start J)]
                 in case truediv (total_mb r) (clock_phase2_end J - clock_phase2_start J) of
                      Inl e \<Rightarrow> (Inl e, append_log path completed W1)
                    | Inr rate2 \<Rightarrow>
                        (Inr (r \<lparr> log_path := Some path \<rparr>),
                         append_log path (completed @ [Rate (py ''Throughput'') rate2]) W1))))"

subsection \<open>Phase 3 with its log\<close>

text \<open>
  With \<open>verify\<close> the destination is checked and the outcome appended to the log; the
  throughput line divides by the duration of phase 3. Without \<open>verify\<close> the duration of
  phase 3 is \<open>0.0\<close>. The result comes with that duration.
\<close>

definition verify_phase ::
  "'h library \<Rightarrow> job \<Rightarrow> transfer_result \<Rightarrow> phase1_state \<Rightarrow> world
     \<Rightarrow> (py_exception + transfer_result \<times> real) \<times> world" where
  "verify_phase L J r st W =
     (if verify J then
        (let r3 = phase3 L (source_hashes st) (dest_files J) r;
             path = log_name (tape_name r) (source_name J) (timestamp J);
             opened = [Line (py ''--- Phase 3 (Verify) ---''),
                       Secs (py ''Started'') (clock_phase3_start J),
                       Secs (py ''Finished'') (clock_phase3_end J),
                       Secs (py ''Duration'') (clock_phase3_end J - clock_phase3_start J)]
         in case truediv (total_mb r3) (clock_phase3_end J - clock_phase3_start J) of
              Inl e \<Rightarrow> (Inl e, append_log path opened W)
            | Inr rate3 \<Rightarrow>
                (Inr (r3, clock_phase3_end J - clock_phase3_start J),
                 append_log path
                   (opened
                    @ [Rate (py ''Throughput'') rate3,
                       Num (py ''Files verified'') (files_verified r3),
                       Num (py ''Files failed'') (files_failed r3)]
                    @ (if failed_files r3 = [] then []
                       else Line (py ''--- Failed files ---'')
                            # map (\<lambda>x. Line (py ''  '' @ x)) (failed_files r3))) W))
      else (Inr (r, 0), W))"

subsection \<open>Phase 4: the manifest\<close>

text \<open>
  \<open>tape_file.stat()\<close> for \<open>tape_file = result.destination / rel_path\<close>: the file of the
  destination walk of exactly that relative path; \<open>None\<close> when there is none or its
  \<open>stat\<close> raises \<open>OSError\<close>.
\<close>

definition tape_stat :: "fs_file list \<Rightarrow> pystr \<Rightarrow> stat_result option" where
  "tape_stat dest rel = (case find (\<lambda>d. rel_path d = rel) dest of None \<Rightarrow> None | Some d \<Rightarrow> stat d)"

text \<open>
  One record per entry of the ledger, in the order of the ledger, with the modification
  time of the tape file (or none) and the reading of the clock as hash date.
\<close>

definition build_mhl :: "job \<Rightarrow> pystr \<Rightarrow> ledger \<Rightarrow> MHL" where
  "build_mhl J tape ledger =
     \<lparr> version = py ''1.1'',
       creator_info = (default_creator J)
          \<lparr> c_start_date := Some (start_datetime J), c_finish_date := Some (finish_datetime J) \<rparr>,
       tape_info = Some \<lparr> ti_name = tape, ti_serial = [], ti_vendor = [], ti_product = [] \<rparr>,
       hashes = map (\<lambda>(i, rel, file_hash, file_size).
                   \<lparr> h_file = rel, h_size = int file_size, h_xxhash64be = file_hash,
                     h_last_modification_date = map_option st_mtime (tape_stat (dest_files J) rel),
                     h_hash_date = Some (hash_clock J i) \<rparr>)
                 (enumerate 0 ledger) \<rparr>"

subsection \<open>Phase 5: the mirror tree and the catalog database\<close>

text \<open>
  5a. For every key of the ledger: \<open>catalog_file.parent.mkdir(...)\<close> and
  \<open>catalog_file.touch()\<close>, which may raise and are not inside a \<open>try\<close>; then the times
  of the tape file are copied, which is (\<open>except OSError: pass\<close>).
\<close>

fun touch_all ::
  "(pystr \<Rightarrow> py_exception option) \<Rightarrow> (pystr \<Rightarrow> stat_result option) \<Rightarrow> pystr \<Rightarrow> pystr list
     \<Rightarrow> (pystr \<Rightarrow> datetime option option) \<Rightarrow> py_exception option \<times> (pystr \<Rightarrow> datetime option option)" where
  "touch_all err tape_file dir [] m = (None, m)"
| "touch_all err tape_file dir (rel # rels) m =
     (case err rel of
        Some e \<Rightarrow> (Some e, m)
      | None \<Rightarrow>
          touch_all err tape_file dir rels
            (m (dir @ py ''/'' @ rel \<mapsto> map_option st_mtime (tape_file rel))))"

text \<open>
  5b. Everything between \<open>try:\<close> and \<open>except Exception as e:\<close>: the database is opened,
  \<open>add_tape\<close>, the file tuples are prepared, \<open>add_files\<close>. Any exception is caught and
  printed as a warning. The result is the database afterwards and the exception
  caught, if any. \<open>add_tape\<close> has committed when \<open>add_files\<close> starts.
\<close>

definition catalog_update ::
  "'h library \<Rightarrow> job \<Rightarrow> pystr \<Rightarrow> file_tuple list \<Rightarrow> catalog \<Rightarrow> catalog \<times> py_exception option" where
  "catalog_update L J tape db_files d =
     (case add_tape_error J of
        Some e \<Rightarrow> (d, Some e)
      | None \<Rightarrow>
          (case add_tape d tape None None None of
             (Some e, d1) \<Rightarrow> (d1, Some e)
           | (None, d1) \<Rightarrow>
               (case add_files_error J of
                  Some e \<Rightarrow> (d1, Some e)
                | None \<Rightarrow>
                    (case add_files L (rejects_row J) (archived_datetime J) d1 tape db_files
                            (Some (archived_datetime J)) of
                       (Inl e, d2) \<Rightarrow> (d2, Some e)
                     | (Inr added, d2) \<Rightarrow> (d2, None)))))"

definition transfer_db_files :: "job \<Rightarrow> ledger \<Rightarrow> file_tuple list" where
  "transfer_db_files J ledger =
     map (\<lambda>(rel, file_hash, file_size).
            (rel, int file_size, map_option st_mtime (tape_stat (dest_files J) rel), Some file_hash))
       ledger"

subsection \<open>The summary and the whole job\<close>

text \<open>The lines appended to the log at the end, before the overall throughput.\<close>

definition log_summary :: "job \<Rightarrow> transfer_result \<Rightarrow> phase1_state \<Rightarrow> log_line list" where
  "log_summary J r st =
     [Line (py ''--- Summary ---''), Secs (py ''Finished'') (end_time r),
      Secs (py ''Duration'') (duration_seconds r),
      Num (py ''Files counted'') (files_total r),
      Num (py ''Files transferred'') (length (source_hashes st))]
     @ (if excluded_files st = [] then []
        else [Num (py ''Files excluded'') (length (excluded_files st))])
     @ [Num (py ''Files verified'') (files_verified r),
        Num (py ''Files failed'') (files_failed r),
        Line (py ''--- Phase Performance ---''),
        Secs (py ''Phase 1 (Hash source)'') (phase1_duration r),
        Rate (py ''Phase 1 (Hash source)'') (phase1_throughput r),
        Secs (py ''Phase 2 (Transfer)'') (phase2_duration r),
        Rate (py ''Phase 2 (Transfer)'') (phase2_throughput r)]
     @ (if verify J
        then [Secs (py ''Phase 3 (Verify)'') (phase3_duration r),
              Rate (py ''Phase 3 (Verify)'') (phase3_throughput r)]
        else [])
     @ [Secs (py ''Phase 4 (MHL)'') (phase4_duration r),
        Secs (py ''Phase 5 (Catalog)'') (phase5_duration r)]"

text \<open>
  Phases 4 and 5 and the end of the job, from the result of phase 3 and its duration.
  The manifest is saved; the placeholders are created; the database is updated inside
  \<open>try\<close>; the times are stored in the result; the summary is appended to the log, its
  last line dividing by the duration of the whole job.
\<close>

definition finish_transfer ::
  "'h library \<Rightarrow> job \<Rightarrow> transfer_result \<Rightarrow> real \<Rightarrow> phase1_state \<Rightarrow> world
     \<Rightarrow> (py_exception + transfer_result) \<times> world" where
  "finish_transfer L J r p3 st W =
     (let tape = tape_name r;
          manifest = mhl_name tape (source_name J) (timestamp J);
          W4 = W \<lparr> mhl_dir := save L (build_mhl J tape (source_hashes st)) manifest (mhl_dir W) \<rparr>;
          r4 = r \<lparr> mhl_path := Some manifest \<rparr>;
          mirror = tape @ py ''/'' @ source_name J
      in case touch_all (touch_error J) (tape_stat (dest_files J)) mirror
                (map fst (source_hashes st)) (catalog_dir W4) of
           (Some e, placeholders) \<Rightarrow> (Inl e, W4 \<lparr> catalog_dir := placeholders \<rparr>)
         | (None, placeholders) \<Rightarrow>
             (let updated = catalog_update L J tape (transfer_db_files J (source_hashes st)) (database W4);
                  W5 = W4 \<lparr> catalog_dir := placeholders, database := fst updated \<rparr>;
                  r5 = r4 \<lparr> catalog_path := Some mirror,
                            end_time := clock_end J,
                            phase1_duration := clock_phase1_end J - clock_phase1_start J,
                            phase2_duration := clock_phase2_end J - clock_phase2_start J,
                            phase3_duration := p3,
                            phase4_duration := clock_phase4_end J - clock_phase4_start J,
                            phase5_duration := clock_phase5_end J - clock_phase5_start J \<rparr>;
                  path = log_name tape (source_name J) (timestamp J)
              in case truediv (total_mb r5) (duration_seconds r5) of
                   Inl e \<Rightarrow> (Inl e, append_log path (log_summary J r5 st) W5)
                 | Inr overall \<Rightarrow>
                     (Inr r5,
                      append_log path
                        (log_summary J r5 st @ [Rate (py ''Overall throughput'') overall]) W5)))"

text \<open>
  \<open>transfer\<close>. The result is the exception raised or the \<open>TransferResult\<close> returned, and
  the files and the database afterwards.
\<close>

definition transfer ::
  "'h library \<Rightarrow> job \<Rightarrow> world \<Rightarrow> (py_exception + transfer_result) \<times> world" where
  "transfer L J W =
     (if \<not> source_exists J then (Inl (TransferError (py ''Source not found: '' @ source_path J)), W)
      else if \<not> is_mounted J then (Inl (TransferError (py ''No tape mounted at '' @ mount_point J)), W)
      else
        (let r0 = (new_result J) \<lparr> files_total := fst (check_source (source_files J)),
                                   bytes_total := snd (check_source (source_files J)) \<rparr>
         in if dry_run J then (Inr (r0 \<lparr> end_time := clock_end J \<rparr>), W)
            else
              (let st = phase1 L (excludes J) (source_files J) in
               case phase2 J r0 st W of
                 (Inl e, W2) \<Rightarrow> (Inl e, W2)
               | (Inr r2, W2) \<Rightarrow>
                   (case verify_phase L J r2 st W2 of
                      (Inl e, W3) \<Rightarrow> (Inl e, W3)
                    | (Inr (r3, p3), W3) \<Rightarrow> finish_transfer L J r3 p3 st W3))))"

section \<open>cli.py: recover and finalize\<close>

text \<open>
  Both commands read the same kind of surroundings as \<open>transfer\<close>; \<open>timestamp\<close> is read
  when phase 4 ends. They exit with \<open>SystemExit(1)\<close> when no tape is mounted or the
  directory is not on the tape, and return nothing.
\<close>

definition command_tape_name :: "job \<Rightarrow> pystr" where
  "command_tape_name J =
     (case tape_name_arg J of
        None \<Rightarrow> source_name J
      | Some n \<Rightarrow> if n = [] then source_name J else n)"

definition command_mhl :: "job \<Rightarrow> HashEntry list \<Rightarrow> MHL" where
  "command_mhl J entries =
     \<lparr> version = py ''1.1'',
       creator_info = (default_creator J)
          \<lparr> c_start_date := Some (start_datetime J), c_finish_date := Some (finish_datetime J) \<rparr>,
       tape_info = Some \<lparr> ti_name = command_tape_name J, ti_serial = [], ti_vendor = [],
                          ti_product = [] \<rparr>,
       hashes = entries \<rparr>"

text \<open>
  \<open>recover\<close>, counting: the files that are not excluded, each with its size, whose
  \<open>stat\<close> is not inside a \<open>try\<close>.
\<close>

definition recover_sources :: "'h library \<Rightarrow> job \<Rightarrow> py_exception + fs_file list" where
  "recover_sources L J =
     (case find (\<lambda>f. stat f = None)
             (filter (\<lambda>f. \<not> should_exclude L (rel_path f) (excludes J)) (source_files J)) of
        Some f \<Rightarrow> Inl (OSError (strerror f))
      | None \<Rightarrow> Inr (filter (\<lambda>f. \<not> should_exclude L (rel_path f) (excludes J)) (source_files J)))"

text \<open>
  \<open>recover\<close>, phase 4, one source file: it is hashed, the modification time is that of
  the tape file if it exists and of the source file otherwise; an \<open>OSError\<close> skips the
  file with a warning. The state is the records of the manifest and the dict
  \<open>file_hashes\<close>.
\<close>

definition recover_step ::
  "'h library \<Rightarrow> job \<Rightarrow> HashEntry list \<times> (pystr \<times> pystr) list \<Rightarrow> nat \<times> fs_file
     \<Rightarrow> HashEntry list \<times> (pystr \<times> pystr) list" where
  "recover_step L J acc item =
     (case (hash_file L (snd item) DEFAULT_CHUNK_SIZE, stat (snd item)) of
        (Inr file_hash, Some s) \<Rightarrow>
          (case (case find (\<lambda>d. rel_path d = normalize_path L (rel_path (snd item))) (dest_files J) of
                   None \<Rightarrow> Some (st_mtime s)
                 | Some d \<Rightarrow> map_option st_mtime (stat d)) of
             None \<Rightarrow> acc
           | Some mtime \<Rightarrow>
               (fst acc @ [\<lparr> h_file = normalize_path L (rel_path (snd item)),
                              h_size = int (st_size s), h_xxhash64be = file_hash,
                              h_last_modification_date = Some mtime,
                              h_hash_date = Some (hash_clock J (fst item)) \<rparr>],
                dict_set (normalize_path L (rel_path (snd item))) file_hash (snd acc)))
      | _ \<Rightarrow> acc)"

text \<open>
  \<open>recover\<close>, phase 5b, the file tuples: size and time from the source file of the
  canonical path, else from the tape file, else the entry is skipped.
\<close>

definition recover_db_files :: "job \<Rightarrow> (pystr \<times> pystr) list \<Rightarrow> file_tuple list" where
  "recover_db_files J file_hashes =
     concat (map (\<lambda>(rel, file_hash).
        (case tape_stat (source_files J) rel of
           Some s \<Rightarrow> [(rel, int (st_size s), Some (st_mtime s), Some file_hash)]
         | None \<Rightarrow>
             (case tape_stat (dest_files J) rel of
                Some s \<Rightarrow> [(rel, int (st_size s), Some (st_mtime s), Some file_hash)]
              | None \<Rightarrow> []))) file_hashes)"

definition recover :: "'h library \<Rightarrow> job \<Rightarrow> world \<Rightarrow> (py_exception + unit) \<times> world" where
  "recover L J W =
     (if \<not> is_mounted J then (Inl (SystemExit 1), W)
      else if \<not> dest_dir_exists J then (Inl (SystemExit 1), W)
      else
        (case recover_sources L J of
           Inl e \<Rightarrow> (Inl e, W)
         | Inr kept \<Rightarrow>
             (let hashed = foldl (recover_step L J) ([], []) (enumerate 0 kept);
                  tape = command_tape_name J;
                  manifest = mhl_name tape (source_name J) (timestamp J);
                  W4 = W \<lparr> mhl_dir := save L (command_mhl J (fst hashed)) manifest (mhl_dir W) \<rparr>
              in case touch_all (touch_error J) (tape_stat (dest_files J))
                        (tape @ py ''/'' @ source_name J) (map fst (snd hashed)) (catalog_dir W4) of
                   (Some e, placeholders) \<Rightarrow> (Inl e, W4 \<lparr> catalog_dir := placeholders \<rparr>)
                 | (None, placeholders) \<Rightarrow>
                     (Inr (),
                      W4 \<lparr> catalog_dir := placeholders,
                           database := fst (catalog_update L J tape (recover_db_files J (snd hashed))
                                        (database W4)) \<rparr>))))"

text \<open>
  \<open>finalize\<close> reads the tape directory itself. Counting sums the sizes, with \<open>stat\<close>
  outside any \<open>try\<close>. In phase 4 the path is taken as it is on the tape, without
  normalisation; an \<open>OSError\<close> skips the file with a warning. Phase 5a makes a
  placeholder for every file of the walk, phase 5b takes its tuples from the records of
  the manifest.
\<close>

definition finalize_step ::
  "'h library \<Rightarrow> job \<Rightarrow> HashEntry list \<Rightarrow> nat \<times> fs_file \<Rightarrow> HashEntry list" where
  "finalize_step L J acc item =
     (case (hash_file L (snd item) DEFAULT_CHUNK_SIZE, stat (snd item)) of
        (Inr file_hash, Some s) \<Rightarrow>
          acc @ [\<lparr> h_file = rel_path (snd item), h_size = int (st_size s),
                    h_xxhash64be = file_hash, h_last_modification_date = Some (st_mtime s),
                    h_hash_date = Some (hash_clock J (fst item)) \<rparr>]
      | _ \<Rightarrow> acc)"

definition finalize_db_files :: "HashEntry list \<Rightarrow> file_tuple list" where
  "finalize_db_files entries =
     map (\<lambda>e. (h_file e, h_size e, h_last_modification_date e, Some (h_xxhash64be e))) entries"

definition finalize :: "'h library \<Rightarrow> job \<Rightarrow> world \<Rightarrow> (py_exception + unit) \<times> world" where
  "finalize L J W =
     (if \<not> is_mounted J then (Inl (SystemExit 1), W)
      else if \<not> dest_dir_exists J then (Inl (SystemExit 1), W)
      else
        (case find (\<lambda>f. stat f = None) (dest_files J) of
           Some f \<Rightarrow> (Inl (OSError (strerror f)), W)
         | None \<Rightarrow>
             (let entries = foldl (finalize_step L J) [] (enumerate 0 (dest_files J));
                  tape = command_tape_name J;
                  manifest = mhl_name tape (source_name J) (timestamp J);
                  W4 = W \<lparr> mhl_dir := save L (command_mhl J entries) manifest (mhl_dir W) \<rparr>
              in case touch_all (touch_error J) (tape_stat (dest_files J))
                        (tape @ py ''/'' @ source_name J) (map rel_path (dest_files J))
                        (catalog_dir W4) of
                   (Some e, placeholders) \<Rightarrow> (Inl e, W4 \<lparr> catalog_dir := placeholders \<rparr>)
                 | (None, placeholders) \<Rightarrow>
                     (Inr (),
                      W4 \<lparr> catalog_dir := placeholders,
                           database := fst (catalog_update L J tape (finalize_db_files entries)
                                        (database W4)) \<rparr>))))"

section \<open>Notions used in the statements\<close>

text \<open>
  The chunk sizes of at least 1 that \<open>read\<close> accepts on a stream. The canonical path of
  a file of a walk; the source files phase 1 hashes (not
  excluded, \<open>stat\<close> and reading succeed); the digest phase 1 computes for such a file.
\<close>

definition accepts :: "binary_io \<Rightarrow> int \<Rightarrow> bool" where
  "accepts io n \<longleftrightarrow>
     (case io of
        BytesIO \<Rightarrow> n \<le> SSIZE_MAX
      | BufferedReader limit \<Rightarrow> n \<le> limit \<and> n \<le> SSIZE_MAX - 33)"

definition canon :: "'h library \<Rightarrow> fs_file \<Rightarrow> pystr" where
  "canon L f = normalize_path L (rel_path f)"

definition readable :: "fs_file \<Rightarrow> bool" where
  "readable f \<longleftrightarrow> stat f \<noteq> None \<and> content f \<noteq> None"

definition hashed :: "'h library \<Rightarrow> pystr list \<Rightarrow> fs_file list \<Rightarrow> fs_file list" where
  "hashed L ex src = filter (\<lambda>f. \<not> should_exclude L (rel_path f) ex \<and> readable f) src"

definition unreadable :: "'h library \<Rightarrow> pystr list \<Rightarrow> fs_file list \<Rightarrow> fs_file list" where
  "unreadable L ex src = filter (\<lambda>f. \<not> should_exclude L (rel_path f) ex \<and> \<not> readable f) src"

definition digest_of :: "'h library \<Rightarrow> fs_file \<Rightarrow> pystr" where
  "digest_of L f =
     (case hash_stream (xxhash L) (BufferedReader (max_alloc L))
             (case content f of None \<Rightarrow> [] | Some data \<Rightarrow> data) DEFAULT_CHUNK_SIZE of
        Inl e \<Rightarrow> []
      | Inr h \<Rightarrow> h)"

text \<open>
  The destination files that stand at a canonical path of the ledger, and what it means
  that they are byte-identical copies: each is readable and has the bytes of every
  hashed source file of its canonical path, and no two of them share a canonical path.
\<close>

definition ledgered :: "'h library \<Rightarrow> pystr list \<Rightarrow> fs_file list \<Rightarrow> fs_file list \<Rightarrow> fs_file list" where
  "ledgered L ex src dest = filter (\<lambda>d. canon L d \<in> set (map (canon L) (hashed L ex src))) dest"

definition faithful_copies :: "'h library \<Rightarrow> pystr list \<Rightarrow> fs_file list \<Rightarrow> fs_file list \<Rightarrow> bool" where
  "faithful_copies L ex src dest \<longleftrightarrow>
     distinct (map (canon L) (ledgered L ex src dest)) \<and>
     list_all (\<lambda>d. readable d \<and>
                 list_all (\<lambda>s. canon L s \<noteq> canon L d \<or> content s = content d) (hashed L ex src))
       (ledgered L ex src dest)"

text \<open>
  The destination holds a byte-identical copy of every hashed source file; and: it
  holds one of every hashed source file but those of the canonical path \<open>k\<close>, of which
  it holds nothing.
\<close>

definition identical_copy :: "'h library \<Rightarrow> pystr list \<Rightarrow> fs_file list \<Rightarrow> fs_file list \<Rightarrow> bool" where
  "identical_copy L ex src dest \<longleftrightarrow>
     faithful_copies L ex src dest \<and>
     list_all (\<lambda>s. canon L s \<in> set (map (canon L) dest)) (hashed L ex src)"

definition missing_one ::
  "'h library \<Rightarrow> pystr list \<Rightarrow> fs_file list \<Rightarrow> fs_file list \<Rightarrow> pystr \<Rightarrow> bool" where
  "missing_one L ex src dest k \<longleftrightarrow>
     faithful_copies L ex src dest \<and>
     k \<in> set (map (canon L) (hashed L ex src)) \<and>
     k \<notin> set (map (canon L) dest) \<and>
     list_all (\<lambda>s. canon L s = k \<or> canon L s \<in> set (map (canon L) dest)) (hashed L ex src)"

(*MODEL*)

section \<open>Concrete libraries and sample data\<close>

text \<open>
  A 64-bit multiply-and-add hasher with the library's interface, used where a closed
  example needs a concrete hasher. Its digest text is the sixteen lowercase hexadecimal
  digits of the state, most significant first.
\<close>

definition hexchar :: "nat \<Rightarrow> nat" where
  "hexchar d = (if d < 10 then 48 + d else 87 + d)"

definition nibbles :: "64 word \<Rightarrow> pystr" where
  "nibbles w = map (\<lambda>i. hexchar (unat (drop_bit (4 * (15 - i)) w AND 15))) [0..<16]"

definition toy_xxh :: "(64 word) xxh64" where
  "toy_xxh = \<lparr> xxh_new = 0,
               xxh_update = (\<lambda>h chunk. fold (\<lambda>b acc. acc * 31 + ucast b + 1) chunk h),
               xxh_hexdigest = nibbles \<rparr>"

definition sample_time :: datetime where
  "sample_time = \<lparr> year = 2025, month = 1, day = 2,
                   hour = 3, minute = 4, second = 5, microsecond = 6 \<rparr>"


text \<open>
  On ASCII text NFC normalisation changes nothing, and a pattern without a bracket
  expression matches as a glob: \<open>*\<close> stands for any run of characters, \<open>?\<close> for
  any one character. This library serves the closed examples, all of them ASCII.
\<close>

fun glob :: "pystr \<Rightarrow> pystr \<Rightarrow> bool" where
  "glob [] [] = True"
| "glob (c # cs) [] = False"
| "glob [] (p # ps) = (p = 42 \<and> glob [] ps)"
| "glob (c # cs) (p # ps) =
     (if p = 42 then glob (c # cs) ps \<or> glob cs (p # ps)
      else (p = 63 \<or> p = c) \<and> glob cs ps)"

definition ascii_lib :: "(64 word) library" where
  "ascii_lib = \<lparr> nfc = (\<lambda>s. s), fnmatch = glob, xxhash = toy_xxh, memory = 0 \<rparr>"

definition accepts_all :: "file_row \<Rightarrow> bool" where
  "accepts_all r = False"

definition sample_history :: "catalog_op list" where
  "sample_history =
     [AddTape (py ''T1'') None None None,
      AddFiles sample_time (py ''T1'')
        [(py ''a'', 3, None, Some (py ''00'')), (py ''b'', 4, None, Some (py ''01''))] None,
      AddFiles sample_time (py ''T2'') [(py ''c'', 5, None, None)] None,
      AddFiles sample_time (py ''T1'') [(py ''a'', 10, None, Some (py ''02''))] None,
      DeleteTape (py ''T2'')]"

text \<open>A small job: readable files, a tape mounted, a clock that advances, no failures.\<close>

definition file_of :: "string \<Rightarrow> bytes \<Rightarrow> fs_file" where
  "file_of p data =
     \<lparr> rel_path = py p, stat = Some \<lparr> st_size = length data, st_mtime = sample_time \<rparr>,
       content = Some data, strerror = [] \<rparr>"

definition locked_file :: "string \<Rightarrow> fs_file" where
  "locked_file p =
     \<lparr> rel_path = py p, stat = Some \<lparr> st_size = 3, st_mtime = sample_time \<rparr>,
       content = None, strerror = py ''Permission denied'' \<rparr>"

definition sample_creator :: CreatorInfo where
  "sample_creator =
     \<lparr> c_name = py ''Operator'', c_username = py ''op'', c_hostname = py ''host'',
       c_tool = py ''ltfs-tools 0.1.0'', c_start_date = Some sample_time, c_finish_date = None \<rparr>"

definition no_touch_error :: "pystr \<Rightarrow> py_exception option" where
  "no_touch_error p = None"

definition sample_clock :: "nat \<Rightarrow> datetime" where
  "sample_clock i = sample_time"

definition sample_job :: "fs_file list \<Rightarrow> fs_file list \<Rightarrow> job" where
  "sample_job src dest =
     \<lparr> excludes = [py ''.DS_Store'', py ''*.tmp''],
       source_path = py ''/data/src'', source_name = py ''src'',
       mount_point = py ''/media/tape'', mount_point_name = py ''tape'',
       tape_name_arg = Some (py ''T1''), dry_run = False, verify = True,
       source_exists = True, is_mounted = True, dest_dir_exists = True,
       source_files = src, rsync_found = True, rsync_output = [], dest_files = dest,
       default_creator = sample_creator, timestamp = sample_time,
       start_datetime = sample_time, finish_datetime = sample_time,
       hash_clock = sample_clock, archived_datetime = sample_time,
       clock_start = 0, clock_phase1_start = 1, clock_phase1_end = 2,
       clock_phase2_start = 3, clock_phase2_end = 4, clock_phase3_start = 5,
       clock_phase3_end = 6, clock_phase4_start = 7, clock_phase4_end = 8,
       clock_phase5_start = 9, clock_phase5_end = 10, clock_end = 11,
       touch_error = no_touch_error, add_tape_error = None, add_files_error = None,
       rejects_row = accepts_all \<rparr>"

definition empty_world :: world where
  "empty_world =
     \<lparr> mhl_dir = Map.empty, log_dir = Map.empty, catalog_dir = Map.empty,
       database = empty_catalog \<rparr>"

text \<open>
  Three source trees and their destinations: one with an excluded file, copied in
  full; one where a file did not arrive; one with a file that cannot be read.
\<close>

definition job_full :: job where
  "job_full = sample_job [file_of ''a.txt'' [1, 2, 3], file_of ''.DS_Store'' [9]]
                         [file_of ''a.txt'' [1, 2, 3]]"

definition job_short :: job where
  "job_short = sample_job [file_of ''a.txt'' [1, 2, 3], file_of ''b.txt'' [4, 5],
                           file_of ''.DS_Store'' [9]]
                          [file_of ''a.txt'' [1, 2, 3]]"

definition job_locked :: job where
  "job_locked = sample_job [locked_file ''a.txt''] []"

(*SAMPLES*)

section \<open>Digest: streaming against one-shot\<close>







section \<open>Catalog aggregates\<close>

lemma sql_sum_Some: "sql_sum acc xs = Some s \<Longrightarrow> s = acc + sum_list xs"
  by (induction xs arbitrary: acc) (fastforce split: if_splits)+

lemma filter_upsert_map_other:
  "n \<noteq> f_tape_name r \<Longrightarrow>
   filter (\<lambda>f. f_tape_name f = n)
     (map (\<lambda>x. if same_key r x
                 then x \<lparr> f_size := f_size r, f_mtime := f_mtime r,
                        f_xxhash := f_xxhash r, f_archived_at := f_archived_at r \<rparr>
                 else x) rows) = filter (\<lambda>f. f_tape_name f = n) rows"
  by (induction rows) (auto simp: same_key_def)

lemma volume_rows_upsert_other:
  "n \<noteq> f_tape_name r \<Longrightarrow>
   filter (\<lambda>f. f_tape_name f = n) (upsert_file r rows) = filter (\<lambda>f. f_tape_name f = n) rows"
  by (simp add: upsert_file_def filter_upsert_map_other)

lemma tape_names_upsert:
  "f_tape_name ` set (upsert_file r rows) \<subseteq> insert (f_tape_name r) (f_tape_name ` set rows)"
  by (auto simp: upsert_file_def same_key_def list_ex_iff)

lemma insert_files_other:
  "insert_files L rejects tape archived fs (rows, added) = Inr (rows', added') \<Longrightarrow> n \<noteq> tape \<Longrightarrow>
   filter (\<lambda>f. f_tape_name f = n) rows' = filter (\<lambda>f. f_tape_name f = n) rows"
proof (induction fs arbitrary: rows added)
  case Nil
  then show ?case by simp
next
  case (Cons a fs)
  obtain path sz mtime digest where a: "a = (path, sz, mtime, digest)"
    by (cases a) auto
  from Cons.prems show ?case
    unfolding a
    by (auto split: if_splits dest!: Cons.IH simp: volume_rows_upsert_other)
qed

lemma insert_files_names:
  "insert_files L rejects tape archived fs (rows, added) = Inr (rows', added') \<Longrightarrow>
   f_tape_name ` set rows' \<subseteq> insert tape (f_tape_name ` set rows)"
proof (induction fs arbitrary: rows added)
  case Nil
  then show ?case by auto
next
  case (Cons a fs)
  obtain path sz mtime digest where a: "a = (path, sz, mtime, digest)"
    by (cases a) auto
  define r where "r = \<lparr> f_tape_name = tape, f_path = normalize_path L path,
      f_size = sz, f_mtime = mtime, f_xxhash = digest, f_archived_at = Some archived \<rparr>"
  from Cons.prems have ok: "INT64 sz" "utf8_encodable (normalize_path L path)" "encodable_opt digest"
    by (simp_all add: a split: if_splits)
  show ?case
  proof (cases "rejects r")
    case True
    with Cons.prems ok
    have "insert_files L rejects tape archived fs (rows, added) = Inr (rows', added')"
      by (simp add: a r_def)
    then show ?thesis by (rule Cons.IH)
  next
    case False
    with Cons.prems ok
    have "insert_files L rejects tape archived fs (upsert_file r rows, added + 1)
            = Inr (rows', added')"
      by (simp add: a r_def)
    then have "f_tape_name ` set rows' \<subseteq> insert tape (f_tape_name ` set (upsert_file r rows))"
      by (rule Cons.IH)
    moreover have "f_tape_name ` set (upsert_file r rows) \<subseteq> insert tape (f_tape_name ` set rows)"
      using tape_names_upsert [of r rows] by (simp add: r_def)
    ultimately show ?thesis by blast
  qed
qed

lemma volume_rows_no_tape:
  "no_orphans db \<Longrightarrow> name \<notin> set (map t_name (tapes db)) \<Longrightarrow> volume_rows db name = []"
  by (auto simp: no_orphans_def volume_rows_def list_all_iff filter_empty_conv)

lemma inv_empty: "aggregates_ok empty_catalog \<and> no_orphans empty_catalog"
  by (simp add: aggregates_ok_def no_orphans_def empty_catalog_def)

lemma aggregates_ok_map_tapes:
  assumes "aggregates_ok db"
    and "\<And>t. t_name (g t) = t_name t \<and> t_file_count (g t) = t_file_count t
              \<and> t_total_bytes (g t) = t_total_bytes t"
  shows "aggregates_ok (db \<lparr> tapes := map g (tapes db) \<rparr>)"
  using assms by (simp add: aggregates_ok_def list_all_iff volume_rows_def)

lemma no_orphans_map_tapes:
  assumes "no_orphans db" and "\<And>t. t_name (g t) = t_name t"
  shows "no_orphans (db \<lparr> tapes := map g (tapes db) \<rparr>)"
proof -
  have "(\<lambda>x. t_name (g x)) ` set (tapes db) = t_name ` set (tapes db)"
    by (simp add: assms(2))
  with assms(1) show ?thesis
    by (simp add: no_orphans_def list_all_iff image_image)
qed

lemma inv_add_tape:
  assumes "aggregates_ok db" and "no_orphans db"
  shows "aggregates_ok (snd (add_tape db name u b c)) \<and> no_orphans (snd (add_tape db name u b c))"
proof (cases "utf8_encodable name \<and> encodable_opt u \<and> encodable_opt b")
  case False
  with assms show ?thesis by (auto simp: add_tape_def)
next
  case enc: True
  show ?thesis
  proof (cases "name \<in> set (map t_name (tapes db))")
    case True
    define g :: "tape_row \<Rightarrow> tape_row" where "g = (\<lambda>t. if t_name t = name
                 then t \<lparr> t_volume_uuid := coalesce u (t_volume_uuid t),
                        t_barcode := coalesce b (t_barcode t),
                        t_created_at := coalesce c (t_created_at t) \<rparr>
                 else t)"
    have out: "snd (add_tape db name u b c) = db \<lparr> tapes := map g (tapes db) \<rparr>"
      using True enc by (simp add: add_tape_def g_def)
    have keep: "t_name (g t) = t_name t \<and> t_file_count (g t) = t_file_count t
              \<and> t_total_bytes (g t) = t_total_bytes t" for t
      by (simp add: g_def)
    show ?thesis
      unfolding out
      using aggregates_ok_map_tapes [OF assms(1), of g] no_orphans_map_tapes [OF assms(2), of g] keep
      by blast
  next
    case False
    with assms(2) have "volume_rows db name = []"
      by (rule volume_rows_no_tape)
    with assms False enc show ?thesis
      by (auto simp: aggregates_ok_def no_orphans_def list_all_iff add_tape_def volume_rows_def
          new_tape_def)
  qed
qed

lemma inv_delete_tape:
  assumes "aggregates_ok db" and "no_orphans db"
  shows "aggregates_ok (snd (delete_tape db name)) \<and> no_orphans (snd (delete_tape db name))"
proof -
  have rows: "n \<noteq> name \<Longrightarrow> volume_rows (snd (delete_tape db name)) n = volume_rows db n" for n
    by (auto simp: delete_tape_def volume_rows_def intro: filter_cong)
  have tapes: "set (tapes (snd (delete_tape db name))) = {t \<in> set (tapes db). t_name t \<noteq> name}"
    and files: "set (files (snd (delete_tape db name))) = {f \<in> set (files db). f_tape_name f \<noteq> name}"
    by (auto simp: delete_tape_def)
  show ?thesis
    using assms
    by (auto simp: aggregates_ok_def no_orphans_def list_all_iff rows tapes files)
qed

lemma add_files_nonempty:
  assumes "fs \<noteq> []" and "utf8_encodable tape"
    and "archived = (case arch of None \<Rightarrow> now | Some a \<Rightarrow> a)"
    and "db1 = (if tape \<in> set (map t_name (tapes db)) then db
                else db \<lparr> tapes := tapes db @ [new_tape tape None None None] \<rparr>)"
  shows "add_files L rejects now db tape fs arch =
     (case insert_files L rejects tape archived fs (files db1, 0) of
        Inl e \<Rightarrow> (Inl e, db)
      | Inr (rows, added) \<Rightarrow>
          (case update_tape_stats tape (db1 \<lparr> files := rows \<rparr>) of
             Inl e \<Rightarrow> (Inl e, db)
           | Inr db2 \<Rightarrow> (Inr added, db2)))"
  unfolding add_files_def assms(3,4) Let_def using assms(1,2) by simp

lemma inv_add_files:
  assumes "aggregates_ok db" and "no_orphans db"
  shows "aggregates_ok (snd (add_files L rejects now db tape fs arch))
       \<and> no_orphans (snd (add_files L rejects now db tape fs arch))"
proof -
  define archived where "archived = (case arch of None \<Rightarrow> now | Some a \<Rightarrow> a)"
  define db1 where "db1 = (if tape \<in> set (map t_name (tapes db)) then db
                   else db \<lparr> tapes := tapes db @ [new_tape tape None None None] \<rparr>)"
  have db1_files: "files db1 = files db" and db1_tape: "tape \<in> t_name ` set (tapes db1)"
    and db1_names: "t_name ` set (tapes db) \<subseteq> t_name ` set (tapes db1)"
    by (auto simp: db1_def new_tape_def)
  have db1_rows: "volume_rows db1 = volume_rows db"
    by (simp add: volume_rows_def db1_files fun_eq_iff)
  have db1_old: "t \<in> set (tapes db1) \<Longrightarrow> t_name t \<noteq> tape \<Longrightarrow> t \<in> set (tapes db)" for t
    by (auto simp: db1_def new_tape_def split: if_splits)
  show ?thesis
  proof (cases "fs = []")
    case True
    with assms show ?thesis by (simp add: add_files_def)
  next
    case False
    show ?thesis
    proof (cases "utf8_encodable tape")
      case False
      with assms show ?thesis by (simp add: add_files_def)
    next
      case enc: True
      note unfold = add_files_nonempty [OF False enc archived_def db1_def]
      show ?thesis
    proof (cases "insert_files L rejects tape archived fs (files db1, 0)")
      case (Inl e)
      with assms show ?thesis
        by (simp add: unfold)
    next
      case (Inr res)
      obtain rows added where res: "res = (rows, added)" by (cases res)
      note ins = Inr [unfolded res]
      show ?thesis
      proof (cases "update_tape_stats tape (db1 \<lparr> files := rows \<rparr>)")
        case (Inl e)
        with ins assms show ?thesis
          by (simp add: unfold)
      next
        case (Inr db2)
        have out: "snd (add_files L rejects now db tape fs arch) = db2"
          using ins Inr
          by (simp add: unfold)
        obtain total where tot: "sql_sum 0 (map f_size (volume_rows (db1 \<lparr> files := rows \<rparr>) tape)) = Some total"
          and db2: "db2 = db1 \<lparr> files := rows, tapes := map (\<lambda>t. if t_name t = tape
                   then t \<lparr> t_file_count := int (length (volume_rows (db1 \<lparr> files := rows \<rparr>) tape)),
                          t_total_bytes := total \<rparr>
                   else t) (tapes db1) \<rparr>"
          using Inr by (auto simp: update_tape_stats_def split: option.splits)
        have total: "total = sum_list (map f_size (volume_rows (db1 \<lparr> files := rows \<rparr>) tape))"
          using sql_sum_Some [OF tot] by simp
        have files2: "files db2 = rows" by (simp add: db2)
        have rows2: "volume_rows db2 n = filter (\<lambda>f. f_tape_name f = n) rows" for n
          by (simp add: volume_rows_def files2)
        have other: "n \<noteq> tape \<Longrightarrow> volume_rows db2 n = volume_rows db n" for n
          using insert_files_other [OF ins, of n]
          by (simp add: files2 volume_rows_def db1_files)
        have "map t_name (tapes db2) = map t_name (tapes db1)"
          by (simp add: db2 comp_def if_distrib [of t_name])
        then have names2: "t_name ` set (tapes db2) = t_name ` set (tapes db1)"
          by (metis list.set_map)
        have agg: "aggregates_ok db2"
          unfolding aggregates_ok_def list_all_iff
        proof
          fix t assume t: "t \<in> set (tapes db2)"
          then obtain t0 where t0: "t0 \<in> set (tapes db1)"
            and t_eq: "t = (if t_name t0 = tape
                   then t0 \<lparr> t_file_count := int (length (volume_rows (db1 \<lparr> files := rows \<rparr>) tape)),
                          t_total_bytes := total \<rparr>
                   else t0)"
            by (auto simp: db2)
          show "t_file_count t = int (length (volume_rows db2 (t_name t)))
              \<and> t_total_bytes t = sum_list (map f_size (volume_rows db2 (t_name t)))"
          proof (cases "t_name t0 = tape")
            case True
            then show ?thesis
              by (simp add: t_eq total files2 volume_rows_def)
          next
            case False
            then have "t0 \<in> set (tapes db)" using t0 by (rule db1_old [rotated])
            with assms(1) False show ?thesis
              by (simp add: t_eq other aggregates_ok_def list_all_iff)
          qed
        qed
        have "f_tape_name ` set rows \<subseteq> insert tape (f_tape_name ` set (files db))"
          using insert_files_names [OF ins] by (simp add: db1_files)
        moreover have "f_tape_name ` set (files db) \<subseteq> t_name ` set (tapes db)"
          using assms(2) by (auto simp: no_orphans_def list_all_iff)
        ultimately have "f_tape_name ` set rows \<subseteq> t_name ` set (tapes db1)"
          using db1_tape db1_names by blast
        then have "no_orphans db2"
          by (auto simp: no_orphans_def list_all_iff files2 names2)
        with agg show ?thesis by (simp add: out)
      qed
    qed
    qed
  qed
qed

lemma inv_apply_op:
  "aggregates_ok db \<and> no_orphans db \<Longrightarrow>
   aggregates_ok (apply_op L rejects db op) \<and> no_orphans (apply_op L rejects db op)"
  by (cases op) (simp_all add: inv_add_tape inv_add_files inv_delete_tape)

lemma inv_foldl_ops:
  "aggregates_ok db \<and> no_orphans db \<Longrightarrow>
   aggregates_ok (foldl (apply_op L rejects) db ops) \<and> no_orphans (foldl (apply_op L rejects) db ops)"
  by (induction ops arbitrary: db) (simp_all add: inv_apply_op)


text \<open>
  C1. After any history of catalog writes from the empty database (the \<open>add_tape\<close> and
  \<open>add_files\<close> calls of every transfer, recover, finalize or import run, and whole-volume
  deletions, whether a call commits or raises and rolls back), every volume record's
  \<open>file_count\<close> is the number of file rows of that volume and its \<open>total_bytes\<close> is the
  sum of their sizes; and no file row is left without a volume record.
\<close>

theorem C1_aggregates_after_any_history:
  "aggregates_ok (run_ops L rejects ops) \<and> no_orphans (run_ops L rejects ops)"
  unfolding run_ops_def by (rule inv_foldl_ops) (rule inv_empty)

lemma run_sample:
  "run_ops ascii_lib accepts_all sample_history =
      \<lparr> tapes = [\<lparr> t_name = py ''T1'', t_volume_uuid = None, t_barcode = None,
                   t_created_at = None, t_total_bytes = 14, t_file_count = 2 \<rparr>],
        files = [\<lparr> f_tape_name = py ''T1'', f_path = py ''a'', f_size = 10, f_mtime = None,
                   f_xxhash = Some (py ''02''), f_archived_at = Some sample_time \<rparr>,
                 \<lparr> f_tape_name = py ''T1'', f_path = py ''b'', f_size = 4, f_mtime = None,
                   f_xxhash = Some (py ''01''), f_archived_at = Some sample_time \<rparr>] \<rparr>"
  by (simp add: run_ops_def sample_history_def empty_catalog_def add_tape_def add_files_def
        delete_tape_def new_tape_def update_tape_stats_def volume_rows_def upsert_file_def
        same_key_def INT64_def normalize_path_def ascii_lib_def accepts_all_def py_def Let_def
        utf8_encodable_def encodable_opt_def)

theorem C1_witness:
  "map (\<lambda>t. (t_name t, t_file_count t, t_total_bytes t))
       (tapes (run_ops ascii_lib accepts_all sample_history)) = [(py ''T1'', 2, 14)]
   \<and> map f_size (files (run_ops ascii_lib accepts_all sample_history)) = [10, 4]
   \<and> aggregates_ok (run_ops ascii_lib accepts_all sample_history)
   \<and> no_orphans (run_ops ascii_lib accepts_all sample_history)"
proof -
  have tapes_after: "map (\<lambda>t. (t_name t, t_file_count t, t_total_bytes t))
       (tapes (run_ops ascii_lib accepts_all sample_history)) = [(py ''T1'', 2, 14)]"
    by (simp add: run_sample)
  have files_after: "map f_size (files (run_ops ascii_lib accepts_all sample_history)) = [10, 4]"
    by (simp add: run_sample)
  from C1_aggregates_after_any_history [of ascii_lib accepts_all sample_history]
    tapes_after files_after
  show ?thesis by simp
qed

section \<open>Phase 1: the ledger\<close>

lemma dict_set_keys: "fst ` set (dict_set k v kvs) = insert k (fst ` set kvs)"
  by (induction kvs) auto

lemma dict_set_distinct: "distinct (map fst kvs) \<Longrightarrow> distinct (map fst (dict_set k v kvs))"
  by (induction kvs) (auto simp: dict_set_keys)

lemma dict_set_map_of: "map_of (dict_set k v kvs) = (map_of kvs)(k \<mapsto> v)"
  by (induction kvs) (auto simp: fun_eq_iff)

text \<open>
  With the default chunk size \<open>read\<close> raises nothing, so \<open>hash_file\<close> raises \<open>OSError\<close>
  or returns a digest.
\<close>

lemma hash_loop_returns:
  assumes "0 \<le> n" and "accepts io n"
  shows "\<exists>h'. hash_loop X io n h s = Inr h'"
  using assms
proof (induction X io n h s rule: hash_loop.induct)
  case (1 X io n h s)
  have rd: "read io n s = Inr (take (nat n) s, drop (nat n) s)"
    using "1.prems" by (cases io) (auto simp: read_def accepts_def SSIZE_MAX_def)
  show ?case
  proof (cases "take (nat n) s = []")
    case True
    with rd show ?thesis by (subst hash_loop.simps) simp
  next
    case False
    from "1.IH" [OF rd] False "1.prems"
    obtain h' where "hash_loop X io n (xxh_update X h (take (nat n) s)) (drop (nat n) s) = Inr h'"
      by auto
    with rd False show ?thesis by (subst hash_loop.simps) simp
  qed
qed

lemma default_chunk_accepted: "accepts (BufferedReader (max_alloc L)) DEFAULT_CHUNK_SIZE"
  by (simp add: accepts_def max_alloc_def DEFAULT_CHUNK_SIZE_def SSIZE_MAX_def)

lemma hash_stream_default:
  "hash_stream (xxhash L) (BufferedReader (max_alloc L)) data DEFAULT_CHUNK_SIZE
     = Inr (case hash_stream (xxhash L) (BufferedReader (max_alloc L)) data DEFAULT_CHUNK_SIZE of
              Inl e \<Rightarrow> [] | Inr h \<Rightarrow> h)"
proof -
  have "0 \<le> DEFAULT_CHUNK_SIZE" by (simp add: DEFAULT_CHUNK_SIZE_def)
  from hash_loop_returns [OF this default_chunk_accepted [of L],
      of "xxhash L" "xxh_new (xxhash L)" data]
  obtain h' where "hash_loop (xxhash L) (BufferedReader (max_alloc L)) DEFAULT_CHUNK_SIZE
      (xxh_new (xxhash L)) data = Inr h'"
    by blast
  then show ?thesis by (simp add: hash_stream_def)
qed

lemma hash_file_readable:
  "readable f \<Longrightarrow> hash_file L f DEFAULT_CHUNK_SIZE = Inr (digest_of L f)"
  using hash_stream_default [of L]
  by (auto simp: readable_def hash_file_def digest_of_def)

lemma hash_file_unreadable:
  "\<not> readable f \<Longrightarrow> hash_file L f DEFAULT_CHUNK_SIZE = Inl (OSError (strerror f))"
  by (auto simp: readable_def hash_file_def split: option.splits)

lemma phase1_step_cases:
  "phase1_step L ex st f =
     (if should_exclude L (rel_path f) ex
      then st \<lparr> excluded_files := excluded_files st @ [rel_path f] \<rparr>
      else if readable f
      then st \<lparr> source_hashes :=
                   dict_set (canon L f) (digest_of L f, st_size (the (stat f))) (source_hashes st),
                 bytes_processed := bytes_processed st + st_size (the (stat f)) \<rparr>
      else st \<lparr> warned := warned st @ [rel_path f] \<rparr>)"
proof (cases "readable f")
  case True
  then show ?thesis
    by (auto simp: phase1_step_def hash_file_readable canon_def readable_def)
next
  case False
  then show ?thesis
    by (auto simp: phase1_step_def hash_file_unreadable split: option.splits)
qed

lemma phase1_snoc: "phase1 L ex (fs @ [f]) = phase1_step L ex (phase1 L ex fs) f"
  by (simp add: phase1_def)

lemma phase1_keys:
  "set (map fst (source_hashes (phase1 L ex fs))) = set (map (canon L) (hashed L ex fs))"
proof (induction fs rule: rev_induct)
  case Nil
  then show ?case by (simp add: phase1_def phase1_init_def hashed_def)
next
  case (snoc f fs)
  then show ?case
    by (auto simp: phase1_snoc phase1_step_cases hashed_def dict_set_keys)
qed

lemma phase1_distinct: "distinct (map fst (source_hashes (phase1 L ex fs)))"
proof (induction fs rule: rev_induct)
  case Nil
  then show ?case by (simp add: phase1_def phase1_init_def)
next
  case (snoc f fs)
  then show ?case
    by (simp add: phase1_snoc phase1_step_cases dict_set_distinct)
qed

lemma phase1_entry:
  "map_of (source_hashes (phase1 L ex fs)) k = Some (h, sz) \<Longrightarrow>
   \<exists>s \<in> set (hashed L ex fs). canon L s = k \<and> h = digest_of L s \<and> sz = st_size (the (stat s))"
proof (induction fs rule: rev_induct)
  case Nil
  then show ?case by (simp add: phase1_def phase1_init_def)
next
  case (snoc f fs)
  then show ?case
    by (auto simp: phase1_snoc phase1_step_cases hashed_def dict_set_map_of split: if_splits)
qed

lemma phase1_counts:
  "length (excluded_files (phase1 L ex fs)) = length (filter (\<lambda>f. should_exclude L (rel_path f) ex) fs)
   \<and> length (warned (phase1 L ex fs)) = length (unreadable L ex fs)"
proof (induction fs rule: rev_induct)
  case Nil
  then show ?case by (simp add: phase1_def phase1_init_def unreadable_def)
next
  case (snoc f fs)
  then show ?case
    by (simp add: phase1_snoc phase1_step_cases unreadable_def)
qed

lemma count_partition:
  "length (filter (\<lambda>f. should_exclude L (rel_path f) ex) fs) + length (hashed L ex fs)
     + length (unreadable L ex fs) = length fs"
  by (induction fs) (auto simp: hashed_def unreadable_def)

lemma phase1_ledger_length:
  "length (source_hashes (phase1 L ex fs)) = card (set (map (canon L) (hashed L ex fs)))"
proof -
  have "length (source_hashes (phase1 L ex fs)) = length (map fst (source_hashes (phase1 L ex fs)))"
    by simp
  also have "\<dots> = card (set (map fst (source_hashes (phase1 L ex fs))))"
    using phase1_distinct [of L ex fs] by (simp only: distinct_card)
  finally show ?thesis by (simp only: phase1_keys)
qed

section \<open>Phase 3: the walk and the missing files\<close>

lemma missing_fold:
  "foldl (missing_step dp) r ks =
     r \<lparr> files_failed := files_failed r + length (filter (\<lambda>k. k \<notin> set dp) ks),
         failed_files := failed_files r @ map (\<lambda>k. k @ py '' (missing)'') (filter (\<lambda>k. k \<notin> set dp) ks) \<rparr>"
  by (induction ks arbitrary: r) (simp_all add: missing_step_def)

text \<open>A destination file that is off the ledger leaves the state of the walk alone.\<close>

lemma phase3_step_off:
  "map_of ledger (canon L d) = None \<Longrightarrow> phase3_step L ledger acc d = acc"
  by (simp add: phase3_step_def canon_def)

lemma phase3_step_match:
  "map_of ledger (canon L d) = Some (digest_of L d, sz) \<Longrightarrow> readable d \<Longrightarrow>
   fst (phase3_step L ledger acc d) = (fst acc) \<lparr> files_verified := files_verified (fst acc) + 1 \<rparr>"
  by (auto simp: phase3_step_def canon_def hash_file_readable readable_def)

lemma phase3_walk_all_match:
  assumes "\<And>d. d \<in> set dest \<Longrightarrow> map_of ledger (canon L d) \<noteq> None \<Longrightarrow>
             readable d \<and> (\<exists>sz. map_of ledger (canon L d) = Some (digest_of L d, sz))"
  shows "fst (foldl (phase3_step L ledger) acc dest) =
           (fst acc) \<lparr> files_verified := files_verified (fst acc)
              + length (filter (\<lambda>d. map_of ledger (canon L d) \<noteq> None) dest) \<rparr>"
  using assms
proof (induction dest arbitrary: acc)
  case Nil
  then show ?case by simp
next
  case (Cons d dest)
  show ?case
  proof (cases "map_of ledger (canon L d)")
    case None
    with Cons show ?thesis by (simp add: phase3_step_off)
  next
    case (Some v)
    with Cons.prems [of d] obtain sz where m: "map_of ledger (canon L d) = Some (digest_of L d, sz)"
      and rd: "readable d"
      by auto
    have "fst (foldl (phase3_step L ledger) (phase3_step L ledger acc d) dest) =
           (fst (phase3_step L ledger acc d)) \<lparr> files_verified := files_verified (fst (phase3_step L ledger acc d))
              + length (filter (\<lambda>d. map_of ledger (canon L d) \<noteq> None) dest) \<rparr>"
      by (rule Cons.IH) (simp add: Cons.prems)
    then show ?thesis
      by (simp add: phase3_step_match [OF m rd] m)
  qed
qed

section \<open>Phase 3 against a faithful destination\<close>

lemma ledger_lookup_iff:
  "map_of (source_hashes (phase1 L ex src)) k \<noteq> None \<longleftrightarrow> k \<in> set (map (canon L) (hashed L ex src))"
proof -
  have "map_of (source_hashes (phase1 L ex src)) k \<noteq> None
      \<longleftrightarrow> k \<in> fst ` set (source_hashes (phase1 L ex src))"
    by (simp add: map_of_eq_None_iff)
  then show ?thesis
    using phase1_keys [of L ex src] by simp
qed

lemma ledgered_alt:
  "ledgered L ex src dest =
     filter (\<lambda>d. map_of (source_hashes (phase1 L ex src)) (canon L d) \<noteq> None) dest"
  unfolding ledgered_def by (rule filter_cong) (simp_all only: ledger_lookup_iff)

lemma digest_of_content: "content s = content d \<Longrightarrow> digest_of L s = digest_of L d"
  by (simp add: digest_of_def)

lemma faithful_ledgered:
  assumes "faithful_copies L ex src dest" and "d \<in> set (ledgered L ex src dest)"
  shows "readable d"
    and "\<And>s. s \<in> set (hashed L ex src) \<Longrightarrow> canon L s = canon L d \<Longrightarrow> content s = content d"
proof -
  from assms(1) have all: "\<forall>d \<in> set (ledgered L ex src dest). readable d \<and>
      (\<forall>s \<in> set (hashed L ex src). canon L s \<noteq> canon L d \<or> content s = content d)"
    unfolding faithful_copies_def list_all_iff by (rule conjunct2)
  with assms(2) show "readable d" by blast
  fix s assume "s \<in> set (hashed L ex src)" and "canon L s = canon L d"
  with all assms(2) show "content s = content d" by blast
qed

lemma faithful_lookup:
  assumes "faithful_copies L ex src dest" and "d \<in> set dest"
    and "map_of (source_hashes (phase1 L ex src)) (canon L d) \<noteq> None"
  shows "readable d \<and> (\<exists>sz. map_of (source_hashes (phase1 L ex src)) (canon L d) = Some (digest_of L d, sz))"
proof -
  from assms(2,3) have led: "d \<in> set (ledgered L ex src dest)"
    by (simp add: ledgered_alt)
  note rd = faithful_ledgered(1) [OF assms(1) led]
  note same = faithful_ledgered(2) [OF assms(1) led]
  from assms(3) obtain v where v: "map_of (source_hashes (phase1 L ex src)) (canon L d) = Some v"
    by blast
  obtain h sz where hs: "v = (h, sz)" by (cases v)
  from phase1_entry [OF v [unfolded hs]] obtain s where s: "s \<in> set (hashed L ex src)"
    "canon L s = canon L d" "h = digest_of L s"
    by blast
  from same [OF s(1,2)] have "digest_of L s = digest_of L d"
    by (rule digest_of_content)
  with s(3) have "h = digest_of L d" by simp
  with v hs rd show ?thesis by blast
qed

lemma phase3_faithful:
  assumes "faithful_copies L ex src dest"
  shows "phase3 L (source_hashes (phase1 L ex src)) dest r =
     r \<lparr> files_verified := files_verified r + length (ledgered L ex src dest),
         files_failed := files_failed r
           + length (filter (\<lambda>k. k \<notin> set (map (canon L) dest)) (map fst (source_hashes (phase1 L ex src)))),
         failed_files := failed_files r
           @ map (\<lambda>k. k @ py '' (missing)'')
               (filter (\<lambda>k. k \<notin> set (map (canon L) dest)) (map fst (source_hashes (phase1 L ex src)))),
         files_transferred := files_verified r + length (ledgered L ex src dest) \<rparr>"
proof -
  have walk: "fst (foldl (phase3_step L (source_hashes (phase1 L ex src))) (r, 0) dest) =
      r \<lparr> files_verified := files_verified r + length (ledgered L ex src dest) \<rparr>"
    using phase3_walk_all_match [of dest "source_hashes (phase1 L ex src)" L "(r, 0)"]
      faithful_lookup [OF assms]
    by (simp add: ledgered_alt)
  have paths: "map (\<lambda>d. normalize_path L (rel_path d)) dest = map (canon L) dest"
    by (simp add: canon_def)
  show ?thesis
    unfolding phase3_def Let_def walk paths missing_fold by simp
qed

lemma filter_single:
  "distinct ks \<Longrightarrow> k \<in> set ks \<Longrightarrow> (\<And>x. x \<in> set ks \<Longrightarrow> P x \<longleftrightarrow> x = k) \<Longrightarrow> filter P ks = [k]"
proof (induction ks)
  case Nil
  then show ?case by simp
next
  case (Cons a ks)
  show ?case
  proof (cases "a = k")
    case True
    with Cons.prems have "filter P ks = []"
      by (auto simp: filter_empty_conv)
    with True Cons.prems show ?thesis by simp
  next
    case False
    with Cons show ?thesis by auto
  qed
qed

lemma ledgered_keys: "set (map (canon L) (ledgered L ex src dest))
    = set (map (canon L) (hashed L ex src)) \<inter> set (map (canon L) dest)"
proof (intro set_eqI iffI)
  fix x assume "x \<in> set (map (canon L) (ledgered L ex src dest))"
  then obtain d where dl: "d \<in> set (ledgered L ex src dest)" and x: "x = canon L d"
    by auto
  from dl have "d \<in> set dest" and "canon L d \<in> set (map (canon L) (hashed L ex src))"
    by (simp_all add: ledgered_def)
  with x show "x \<in> set (map (canon L) (hashed L ex src)) \<inter> set (map (canon L) dest)"
    by simp
next
  fix x assume "x \<in> set (map (canon L) (hashed L ex src)) \<inter> set (map (canon L) dest)"
  then have k: "x \<in> set (map (canon L) (hashed L ex src))"
    and xd: "x \<in> set (map (canon L) dest)"
    by blast+
  from xd obtain d where d: "d \<in> set dest" "x = canon L d"
    by auto
  with k have "d \<in> set (ledgered L ex src dest)"
    by (simp add: ledgered_def)
  with d(2) show "x \<in> set (map (canon L) (ledgered L ex src dest))"
    by simp
qed

lemma ledgered_count_all:
  assumes "identical_copy L ex src dest"
  shows "length (ledgered L ex src dest) = length (source_hashes (phase1 L ex src))"
    and "filter (\<lambda>k. k \<notin> set (map (canon L) dest)) (map fst (source_hashes (phase1 L ex src))) = []"
proof -
  from assms have fc: "faithful_copies L ex src dest"
    and every: "list_all (\<lambda>s. canon L s \<in> set (map (canon L) dest)) (hashed L ex src)"
    unfolding identical_copy_def by blast+
  from fc have d: "distinct (map (canon L) (ledgered L ex src dest))"
    unfolding faithful_copies_def by (rule conjunct1)
  from every have all: "set (map (canon L) (hashed L ex src)) \<subseteq> set (map (canon L) dest)"
    unfolding list_all_iff by auto
  have "length (ledgered L ex src dest) = card (set (map (canon L) (ledgered L ex src dest)))"
    using distinct_card [OF d] by simp
  also have "\<dots> = card (set (map (canon L) (hashed L ex src)))"
    using all by (simp only: ledgered_keys Int_absorb2)
  finally show "length (ledgered L ex src dest) = length (source_hashes (phase1 L ex src))"
    by (simp only: phase1_ledger_length)
  show "filter (\<lambda>k. k \<notin> set (map (canon L) dest)) (map fst (source_hashes (phase1 L ex src))) = []"
    using all phase1_keys [of L ex src] by (auto simp: filter_empty_conv)
qed

lemma ledgered_count_one:
  assumes "missing_one L ex src dest k"
  shows "length (ledgered L ex src dest) = length (source_hashes (phase1 L ex src)) - 1"
    and "filter (\<lambda>k. k \<notin> set (map (canon L) dest)) (map fst (source_hashes (phase1 L ex src))) = [k]"
    and "1 \<le> length (source_hashes (phase1 L ex src))"
proof -
  let ?K = "set (map (canon L) (hashed L ex src))"
  from assms have fc: "faithful_copies L ex src dest"
    and k: "k \<in> ?K" and kd: "k \<notin> set (map (canon L) dest)"
    and others: "list_all (\<lambda>s. canon L s = k \<or> canon L s \<in> set (map (canon L) dest)) (hashed L ex src)"
    unfolding missing_one_def by blast+
  from fc have d: "distinct (map (canon L) (ledgered L ex src dest))"
    unfolding faithful_copies_def by (rule conjunct1)
  have rest: "x \<in> set (map (canon L) dest)" if "x \<in> ?K" and "x \<noteq> k" for x
    using others that unfolding list_all_iff by auto
  have inter: "?K \<inter> set (map (canon L) dest) = ?K - {k}"
    using kd rest by blast
  have "length (ledgered L ex src dest) = card (set (map (canon L) (ledgered L ex src dest)))"
    using distinct_card [OF d] by simp
  also have "\<dots> = card (?K - {k})"
    by (simp only: ledgered_keys inter)
  also have "\<dots> = card ?K - 1"
    using k by simp
  finally show "length (ledgered L ex src dest) = length (source_hashes (phase1 L ex src)) - 1"
    by (simp only: phase1_ledger_length)
  have keys: "set (map fst (source_hashes (phase1 L ex src))) = ?K"
    by (rule phase1_keys)
  show "filter (\<lambda>k. k \<notin> set (map (canon L) dest)) (map fst (source_hashes (phase1 L ex src))) = [k]"
  proof (rule filter_single)
    show "distinct (map fst (source_hashes (phase1 L ex src)))" by (rule phase1_distinct)
    show "k \<in> set (map fst (source_hashes (phase1 L ex src)))" using k keys by simp
    fix x assume "x \<in> set (map fst (source_hashes (phase1 L ex src)))"
    then have "x \<in> ?K" using keys by simp
    then show "(x \<notin> set (map (canon L) dest)) = (x = k)"
      using kd rest by blast
  qed
  have "0 < card ?K" using k by (auto simp: card_gt_0_iff)
  then show "1 \<le> length (source_hashes (phase1 L ex src))"
    by (simp add: phase1_ledger_length)
qed

section \<open>The result of a transfer with verification\<close>

lemma phase2_result:
  "phase2 J r0 st W = (Inr r2, W2) \<Longrightarrow>
   r2 = r0 \<lparr> log_path := Some (log_name (tape_name r0) (source_name J) (timestamp J)) \<rparr>"
  by (auto simp: phase2_def Let_def split: sum.splits if_splits)

lemma verify_phase_result:
  "verify_phase L J r2 st W2 = (Inr (r3, p3), W3) \<Longrightarrow> verify J \<Longrightarrow>
   r3 = phase3 L (source_hashes st) (dest_files J) r2"
  by (auto simp: verify_phase_def Let_def split: sum.splits if_splits)

lemma finish_transfer_counters:
  "finish_transfer L J r3 p3 st W3 = (Inr r, W') \<Longrightarrow>
   files_verified r = files_verified r3 \<and> files_failed r = files_failed r3
   \<and> failed_files r = failed_files r3 \<and> files_total r = files_total r3
   \<and> files_transferred r = files_transferred r3"
  by (auto simp: finish_transfer_def Let_def split: sum.splits prod.splits option.splits)

lemma phase3_step_total:
  "files_total (fst (phase3_step L ledger acc f)) = files_total (fst acc)"
  by (auto simp: phase3_step_def split: option.splits sum.splits prod.splits)

lemma phase3_walk_total:
  "files_total (fst (foldl (phase3_step L ledger) acc ds)) = files_total (fst acc)"
  by (induction ds arbitrary: acc) (simp_all add: phase3_step_total)

lemma phase3_total: "files_total (phase3 L ledger ds r) = files_total r"
  by (simp add: phase3_def Let_def missing_fold phase3_walk_total)

lemma transfer_verify_result:
  assumes "transfer L J W = (Inr r, W')" and "\<not> dry_run J" and "verify J"
  obtains r2 where "files_verified r2 = 0" and "files_failed r2 = 0" and "failed_files r2 = []"
    and "files_total r2 = length (source_files J)"
    and "files_verified r = files_verified
           (phase3 L (source_hashes (phase1 L (excludes J) (source_files J))) (dest_files J) r2)"
    and "files_failed r = files_failed
           (phase3 L (source_hashes (phase1 L (excludes J) (source_files J))) (dest_files J) r2)"
    and "failed_files r = failed_files
           (phase3 L (source_hashes (phase1 L (excludes J) (source_files J))) (dest_files J) r2)"
    and "files_total r = length (source_files J)"
proof -
  define st where "st = phase1 L (excludes J) (source_files J)"
  define r0 where "r0 = (new_result J) \<lparr> files_total := fst (check_source (source_files J)),
                                   bytes_total := snd (check_source (source_files J)) \<rparr>"
  from assms(1,2) obtain r2 W2 r3 p3 W3 where
    p2: "phase2 J r0 st W = (Inr r2, W2)"
    and p3: "verify_phase L J r2 st W2 = (Inr (r3, p3), W3)"
    and p5: "finish_transfer L J r3 p3 st W3 = (Inr r, W')"
    unfolding transfer_def Let_def st_def [symmetric] r0_def [symmetric]
    by (auto split: if_splits sum.splits prod.splits)
  have r0: "files_verified r0 = 0" "files_failed r0 = 0" "failed_files r0 = []"
    "files_total r0 = length (source_files J)"
    by (simp_all add: r0_def new_result_def check_source_def)
  from phase2_result [OF p2] r0
  have r2: "files_verified r2 = 0" "files_failed r2 = 0" "failed_files r2 = []"
    "files_total r2 = length (source_files J)"
    by simp_all
  have r3: "r3 = phase3 L (source_hashes st) (dest_files J) r2"
    using p3 assms(3) by (rule verify_phase_result)
  have total3: "files_total r3 = files_total r2"
    by (simp add: r3 phase3_total)
  note fin = finish_transfer_counters [OF p5]
  show thesis
    using that [OF r2(1,2,3,4)] fin r3 total3 r2(4) by (simp add: st_def)
qed

end
